theory Spec2Isabelle
  imports Main "HOL-Library.Word"
begin

section \<open>AgentFi backend: the chat and dashboard handlers of index.js\<close>

text \<open>
  The backend is one file, \<^verbatim>\<open>AgentFi-backend/index.js\<close>: an Express application with two
  routes. \<^verbatim>\<open>POST /api/chat\<close> relays a message to a Gemini chat session and runs the tool
  invocations the model asks for against the Go tool server; \<^verbatim>\<open>GET /api/dashboard\<close> fetches
  two fixed tools and reshapes their JSON. Both are embedded here as functions over an
  explicit server state. The model and the tool server are parameters; every call the
  handlers issue to them is recorded in a log.
\<close>

subsection \<open>Strings\<close>

text \<open>
  A JavaScript string is a sequence of UTF-16 code units. Literals of the source are
  written \<open>js ''...''\<close>.
\<close>

type_synonym code_unit = "16 word"
type_synonym jsstring = "code_unit list"

definition js :: "string \<Rightarrow> jsstring" where
  "js s = map (\<lambda>c. of_nat (of_char c)) s"

text \<open>\<^verbatim>\<open>s.startsWith(p)\<close>\<close>

definition startsWith :: "jsstring \<Rightarrow> jsstring \<Rightarrow> bool" where
  "startsWith s p = (take (length p) s = p)"

text \<open>
  \<^verbatim>\<open>s.replace(p, r)\<close> with a string pattern \<open>p\<close>: the first occurrence of \<open>p\<close> is replaced,
  the rest of \<open>s\<close> is kept. (The replacement texts of the source, \<^verbatim>\<open>""\<close> and \<^verbatim>\<open>" "\<close>, hold no
  \<^verbatim>\<open>$\<close> pattern.)
\<close>

fun replace :: "jsstring \<Rightarrow> jsstring \<Rightarrow> jsstring \<Rightarrow> jsstring" where
  "replace [] p r = (if p = [] then r else [])"
| "replace (c # cs) p r =
     (if startsWith (c # cs) p then r @ drop (length p) (c # cs)
      else c # replace cs p r)"

text \<open>
  White space as \<^verbatim>\<open>String.prototype.trim\<close> and \<^verbatim>\<open>parseInt\<close> understand it: the WhiteSpace
  and LineTerminator code points of ECMAScript.
\<close>

definition is_whitespace :: "code_unit \<Rightarrow> bool" where
  "is_whitespace u =
     (u \<in> set [0x0009, 0x000A, 0x000B, 0x000C, 0x000D, 0x0020, 0x00A0, 0x1680,
                0x2000, 0x2001, 0x2002, 0x2003, 0x2004, 0x2005, 0x2006, 0x2007,
                0x2008, 0x2009, 0x200A, 0x2028, 0x2029, 0x202F, 0x205F, 0x3000,
                0xFEFF])"

text \<open>\<^verbatim>\<open>s.trim()\<close>\<close>

definition trim :: "jsstring \<Rightarrow> jsstring" where
  "trim s = rev (dropWhile is_whitespace (rev (dropWhile is_whitespace s)))"

text \<open>
  \<^verbatim>\<open>s.replace(/```json\n|```/g, "")\<close>: one scan from the left. At each position the first
  alternative is tried before the second; a match is dropped and the scan goes on behind
  it, otherwise the code unit is kept.
\<close>

definition fence :: jsstring where
  "fence = js ''```''"

definition fence_json :: jsstring where
  "fence_json = js ''```json'' @ [0x000A]"

fun strip_fences :: "jsstring \<Rightarrow> jsstring" where
  "strip_fences [] = []"
| "strip_fences (c # cs) =
     (if startsWith (c # cs) fence_json then strip_fences (drop 8 (c # cs))
      else if startsWith (c # cs) fence then strip_fences (drop 3 (c # cs))
      else c # strip_fences cs)"

text \<open>
  \<^verbatim>\<open>finalReplyText.replace(/```json\n|```/g, "").trim()\<close>
\<close>

definition cleanedReply :: "jsstring \<Rightarrow> jsstring" where
  "cleanedReply finalReplyText = trim (strip_fences finalReplyText)"

text \<open>Whether \<open>p\<close> occurs in \<open>s\<close> as a substring.\<close>

fun contains :: "jsstring \<Rightarrow> jsstring \<Rightarrow> bool" where
  "contains [] p = (p = [])"
| "contains (c # cs) p = (startsWith (c # cs) p \<or> contains cs p)"

subsection \<open>Errors\<close>

text \<open>
  What a \<^verbatim>\<open>try\<close> block of the handlers can catch: a \<^verbatim>\<open>TypeError\<close> of the language (a property
  read on \<^verbatim>\<open>undefined\<close> or \<^verbatim>\<open>null\<close>, a call of something that is no function), the
  \<^verbatim>\<open>SyntaxError\<close> of \<^verbatim>\<open>JSON.parse\<close>, a rejected \<^verbatim>\<open>axios.post\<close>, an error of the Gemini SDK.
  A computation that may throw returns \<open>error + 'a\<close>, \<open>Inl\<close> for the throw.
\<close>

datatype error = TypeError | SyntaxError | AxiosError | GoogleGenerativeAIError

definition bindE :: "error + 'a \<Rightarrow> ('a \<Rightarrow> error + 'b) \<Rightarrow> error + 'b" where
  "bindE m f = (case m of Inl e \<Rightarrow> Inl e | Inr x \<Rightarrow> f x)"

fun mapE :: "('a \<Rightarrow> error + 'b) \<Rightarrow> 'a list \<Rightarrow> error + 'b list" where
  "mapE f [] = Inr []"
| "mapE f (x # xs) = bindE (f x) (\<lambda>y. bindE (mapE f xs) (\<lambda>ys. Inr (y # ys)))"

fun filterE :: "('a \<Rightarrow> error + bool) \<Rightarrow> 'a list \<Rightarrow> error + 'a list" where
  "filterE f [] = Inr []"
| "filterE f (x # xs) =
     bindE (f x) (\<lambda>keep. bindE (filterE f xs) (\<lambda>ys. Inr (if keep then x # ys else ys)))"

subsection \<open>Values\<close>

text \<open>
  A Number is kept as \<open>NaN\<close> or as the integer it stands for; \<^verbatim>\<open>parseInt\<close> yields nothing
  else. \<open>Num n\<close> is the Number nearest to \<open>n\<close>, which is \<open>n\<close> itself up to \<open>2 ^ 53\<close>.
\<close>

datatype jsnum = NaN | Num int

text \<open>
  The values \<^verbatim>\<open>JSON.parse\<close> and axios hand to the handlers, and \<^verbatim>\<open>undefined\<close>. An object is
  the list of its own properties, each key once. A Number among these values is kept as
  the text that \<^verbatim>\<open>ToString\<close> gives for it: the handlers use such a number only as an argument
  of \<^verbatim>\<open>parseInt\<close> or \<^verbatim>\<open>JSON.parse\<close>, which read that text, or pass it on unread.
\<close>

datatype jsval =
    Undefined
  | JNull
  | JBool bool
  | JNum jsstring
  | JStr jsstring
  | JArr "jsval list"
  | JObj "(jsstring \<times> jsval) list"

text \<open>
  \<^verbatim>\<open>v.k\<close> for a property name \<open>k\<close> that no prototype defines (none of the names the handlers
  read is one): a \<^verbatim>\<open>TypeError\<close> on \<^verbatim>\<open>undefined\<close> and \<^verbatim>\<open>null\<close>, the own property of an object,
  \<^verbatim>\<open>undefined\<close> in every other case.
\<close>

fun get :: "jsval \<Rightarrow> jsstring \<Rightarrow> error + jsval" where
  "get Undefined k = Inl TypeError"
| "get JNull k = Inl TypeError"
| "get (JObj kvs) k = Inr (case map_of kvs k of None \<Rightarrow> Undefined | Some v \<Rightarrow> v)"
| "get v k = Inr Undefined"

text \<open>
  The decimal digits of a natural number: the property name that stands for an index (the
  handlers index with \<open>0\<close> only).
\<close>

fun digits :: "nat \<Rightarrow> jsstring" where
  "digits n = (if n < 10 then [of_nat (48 + n)] else digits (n div 10) @ [of_nat (48 + n mod 10)])"

declare digits.simps [simp del]

text \<open>\<^verbatim>\<open>v[i]\<close> for an index \<open>i\<close>: an element of an array, a code unit of a string, the property
  named by the digits of \<open>i\<close> of an object.\<close>

fun at_index :: "jsval \<Rightarrow> nat \<Rightarrow> error + jsval" where
  "at_index Undefined i = Inl TypeError"
| "at_index JNull i = Inl TypeError"
| "at_index (JArr xs) i = Inr (if i < length xs then xs ! i else Undefined)"
| "at_index (JStr s) i = Inr (if i < length s then JStr [s ! i] else Undefined)"
| "at_index (JObj kvs) i = Inr (case map_of kvs (digits i) of None \<Rightarrow> Undefined | Some v \<Rightarrow> v)"
| "at_index v i = Inr Undefined"

text \<open>A chain of reads, \<^verbatim>\<open>v.a.b[0].c\<close>, left to right; the first read that throws ends it.\<close>

datatype selector = Prop jsstring | Index nat

fun read :: "jsval \<Rightarrow> selector \<Rightarrow> error + jsval" where
  "read v (Prop k) = get v k"
| "read v (Index i) = at_index v i"

fun path :: "jsval \<Rightarrow> selector list \<Rightarrow> error + jsval" where
  "path v [] = Inr v"
| "path v (k # ks) = bindE (read v k) (\<lambda>w. path w ks)"

text \<open>
  A call \<^verbatim>\<open>v.filter(...)\<close> or \<^verbatim>\<open>v.startsWith(...)\<close> finds the method only on an array or on a
  string; on every other value it is a \<^verbatim>\<open>TypeError\<close> (a property read on \<^verbatim>\<open>undefined\<close>, or
  a call of something that is no function).
\<close>

fun as_array :: "jsval \<Rightarrow> error + jsval list" where
  "as_array (JArr xs) = Inr xs"
| "as_array v = Inl TypeError"

fun as_string :: "jsval \<Rightarrow> error + jsstring" where
  "as_string (JStr s) = Inr s"
| "as_string v = Inl TypeError"

text \<open>
  \<^verbatim>\<open>ToString\<close>, which \<^verbatim>\<open>parseInt\<close> and \<^verbatim>\<open>JSON.parse\<close> apply to their argument. An array
  joins its elements with commas, \<^verbatim>\<open>null\<close> and \<^verbatim>\<open>undefined\<close> elements as empty strings. An
  object prints through \<^verbatim>\<open>Object.prototype.toString\<close>, unless an own property hides that
  method: a parsed value is no function, so the conversion throws. A Number gives the text
  it is kept as.
\<close>

fun toString :: "jsval \<Rightarrow> error + jsstring"
  and join :: "jsval list \<Rightarrow> error + jsstring"
  and element_toString :: "jsval \<Rightarrow> error + jsstring" where
  "toString Undefined = Inr (js ''undefined'')"
| "toString JNull = Inr (js ''null'')"
| "toString (JBool b) = Inr (if b then js ''true'' else js ''false'')"
| "toString (JNum t) = Inr t"
| "toString (JStr s) = Inr s"
| "toString (JArr xs) = join xs"
| "toString (JObj kvs) =
     (if js ''toString'' \<in> set (map fst kvs) then Inl TypeError else Inr (js ''[object Object]''))"
| "join [] = Inr []"
| "join [x] = element_toString x"
| "join (x # y # ys) =
     bindE (element_toString x) (\<lambda>a. bindE (join (y # ys)) (\<lambda>b. Inr (a @ js '','' @ b)))"
| "element_toString Undefined = Inr []"
| "element_toString JNull = Inr []"
| "element_toString (JBool b) = toString (JBool b)"
| "element_toString (JNum t) = toString (JNum t)"
| "element_toString (JStr s) = toString (JStr s)"
| "element_toString (JArr xs) = toString (JArr xs)"
| "element_toString (JObj kvs) = toString (JObj kvs)"

text \<open>
  \<^verbatim>\<open>parseInt(v)\<close> with no radix: the argument is converted to a string, leading white space
  is skipped, a sign is read, the prefix \<^verbatim>\<open>0x\<close> or \<^verbatim>\<open>0X\<close> selects radix 16, and the longest
  run of digits of the radix is the value. With no digit the result is \<open>NaN\<close>.
\<close>

definition digit_value :: "code_unit \<Rightarrow> nat option" where
  "digit_value u =
     (if 0x30 \<le> u \<and> u \<le> 0x39 then Some (unat u - 0x30)
      else if 0x61 \<le> u \<and> u \<le> 0x7A then Some (unat u - 0x61 + 10)
      else if 0x41 \<le> u \<and> u \<le> 0x5A then Some (unat u - 0x41 + 10)
      else None)"

definition is_digit :: "nat \<Rightarrow> code_unit \<Rightarrow> bool" where
  "is_digit R u = (case digit_value u of None \<Rightarrow> False | Some d \<Rightarrow> d < R)"

definition digits_value :: "nat \<Rightarrow> jsstring \<Rightarrow> nat" where
  "digits_value R Z = foldl (\<lambda>acc u. acc * R + (case digit_value u of None \<Rightarrow> 0 | Some d \<Rightarrow> d)) 0 Z"

definition parseInt_string :: "jsstring \<Rightarrow> jsnum" where
  "parseInt_string inputString =
     (let S = dropWhile is_whitespace inputString;
          sign = (if startsWith S (js ''-'') then - 1 else 1 :: int);
          S = (if startsWith S (js ''+'') \<or> startsWith S (js ''-'') then drop 1 S else S);
          stripPrefix = startsWith S (js ''0x'') \<or> startsWith S (js ''0X'');
          R = (if stripPrefix then 16 else 10);
          S = (if stripPrefix then drop 2 S else S);
          Z = takeWhile (is_digit R) S
      in if Z = [] then NaN else Num (sign * int (digits_value R Z)))"

definition parseInt :: "jsval \<Rightarrow> error + jsnum" where
  "parseInt v = bindE (toString v) (\<lambda>inputString. Inr (parseInt_string inputString))"

subsection \<open>The tool server\<close>

text \<open>
  The request \<^verbatim>\<open>axios.post\<close> sends to the Go server: the URL, the JSON-RPC body and the two
  headers. Both handlers build it the same way from the session identifier and the name of
  the tool.
\<close>

record relay_request =
  url :: jsstring
  rpc_jsonrpc :: jsstring
  rpc_id :: int
  rpc_method :: jsstring
  params_name :: jsstring
  params_arguments :: jsval
  header_content_type :: jsstring
  header_mcp_session_id :: jsstring

definition GO_ADK_URL :: jsstring where
  "GO_ADK_URL = js ''http://localhost:8080''"

definition tool_request :: "jsstring \<Rightarrow> jsstring \<Rightarrow> relay_request" where
  "tool_request sessionId toolName =
     \<lparr> url = GO_ADK_URL @ js ''/mcp/stream'',
       rpc_jsonrpc = js ''2.0'',
       rpc_id = 1,
       rpc_method = js ''tools/call'',
       params_name = toolName,
       params_arguments = JObj [],
       header_content_type = js ''application/json'',
       header_mcp_session_id = sessionId \<rparr>"

subsection \<open>The model\<close>

text \<open>
  What \<^verbatim>\<open>chat.sendMessage\<close> returns, as far as the handler reads it: \<^verbatim>\<open>functionCalls()\<close> gives
  \<^verbatim>\<open>undefined\<close> (\<open>None\<close>) or a list of invocations, \<^verbatim>\<open>text()\<close> gives the text; either accessor
  may throw.
\<close>

record functionCall =
  fc_name :: jsstring
  fc_args :: jsval

record functionResponse =
  fr_name :: jsstring
  fr_response :: jsval

record response =
  functionCalls :: "error + functionCall list option"
  response_text :: "error + jsstring"

text \<open>
  The entries of a chat history: the system instruction the chat is started with, a user
  message, a list of function responses, a response of the model.
\<close>

datatype content =
    SystemInstruction
  | UserText jsstring
  | FunctionResponses "functionResponse list"
  | ModelContent response

subsection \<open>The outside world and the server state\<close>

text \<open>
  Every call that leaves the process is an event, and the log holds them in the order in
  which they were issued. The log is not a variable of the source: it is what a mock of
  the model and of the tool server would record.
\<close>

datatype event = RelayCall relay_request | ModelCall "content list"

text \<open>
  The collaborators. \<open>generate\<close> is the Gemini API: from the contents sent (the history and
  the new message) to a response or an error. \<open>post\<close> is the Go server behind \<^verbatim>\<open>axios.post\<close>:
  from a request to the \<^verbatim>\<open>data\<close> of the HTTP response, or an error when the promise rejects.
  Both may answer differently at different times: they also see the log as it stood when
  the call was issued. \<open>JSON_parse\<close> is \<^verbatim>\<open>JSON.parse\<close> on a string.
\<close>

record services =
  generate :: "event list \<Rightarrow> content list \<Rightarrow> error + response"
  post :: "event list \<Rightarrow> relay_request \<Rightarrow> error + jsval"
  JSON_parse :: "jsstring \<Rightarrow> error + jsval"

text \<open>
  \<open>chatSessions\<close> is the \<^verbatim>\<open>Map\<close> of the source, from session identifier to chat session. A
  chat session is kept as its history.
\<close>

record server =
  chatSessions :: "jsstring \<rightharpoonup> content list"
  log :: "event list"

text \<open>
  \<^verbatim>\<open>toolPromises = names.map(name => axios.post(...))\<close>: every request is issued, in order,
  before any answer is awaited.
\<close>

fun post_all :: "services \<Rightarrow> relay_request list \<Rightarrow> event list \<Rightarrow> (error + jsval) list \<times> event list" where
  "post_all sv [] lg = ([], lg)"
| "post_all sv (r # rs) lg =
     (let (outcomes, lg') = post_all sv rs (lg @ [RelayCall r])
      in (post sv lg r # outcomes, lg'))"

text \<open>
  \<^verbatim>\<open>await Promise.all(toolPromises)\<close>: the list of all results when every promise is
  fulfilled, a throw when one is rejected. (Which rejection is thrown when several
  promises reject depends on timing; the handlers do not look at it.)
\<close>

fun promise_all :: "(error + 'a) list \<Rightarrow> error + 'a list" where
  "promise_all [] = Inr []"
| "promise_all (Inl e # ps) = Inl e"
| "promise_all (Inr x # ps) = bindE (promise_all ps) (\<lambda>xs. Inr (x # xs))"

text \<open>
  Modelled from the spec: the chat session of the Gemini SDK, which is not part of the
  repository. The spec describes it as a conversational state, an ordered history of
  exchanged messages, that accepts a user message or a list of tool results and returns
  the model's response. \<open>sendMessage\<close> sends the history with the new message; when the
  model answers, the message and the answer join the history.
\<close>

definition sendMessage ::
  "services \<Rightarrow> content list \<Rightarrow> content \<Rightarrow> event list \<Rightarrow> (error + response) \<times> content list \<times> event list" where
  "sendMessage sv chat request lg =
     (let contents = chat @ [request]
      in case generate sv lg contents of
           Inl e \<Rightarrow> (Inl e, chat, lg @ [ModelCall contents])
         | Inr r \<Rightarrow> (Inr r, contents @ [ModelContent r], lg @ [ModelCall contents]))"

text \<open>\<^verbatim>\<open>model.startChat({ history: [systemInstruction] })\<close>\<close>

definition startChat :: "content list" where
  "startChat = [SystemInstruction]"

text \<open>
  What a change of the session object \<^verbatim>\<open>chat\<close> shows in the \<^verbatim>\<open>Map\<close>. \<^verbatim>\<open>chatSessions.get\<close> hands
  out the object itself and \<^verbatim>\<open>chatSessions.set\<close> stores the object itself, so the entry of
  \<open>sessionId\<close>, where the registry has one, is the object the handler calls \<^verbatim>\<open>chat\<close>, and it
  shows the new history. Where the registry has no entry for \<open>sessionId\<close>, the object is not
  in the registry and the registry stays as it is: a change of the object adds no entry,
  only \<^verbatim>\<open>chatSessions.set\<close> does.
\<close>

definition session_mutated ::
  "jsstring \<Rightarrow> content list \<Rightarrow> (jsstring \<rightharpoonup> content list) \<Rightarrow> (jsstring \<rightharpoonup> content list)" where
  "session_mutated sessionId chat' sessions =
     (case sessions sessionId of
        None \<Rightarrow> sessions
      | Some held \<Rightarrow> sessions(sessionId \<mapsto> chat'))"

text \<open>
  \<^verbatim>\<open>await chat.sendMessage(request)\<close> in the handler: the call is logged; when it fails the
  session object is as it was, when the model answers the object has its new history.
\<close>

definition chat_sendMessage ::
  "services \<Rightarrow> jsstring \<Rightarrow> content list \<Rightarrow> content \<Rightarrow> server \<Rightarrow> (error + response) \<times> content list \<times> server" where
  "chat_sendMessage sv sessionId chat request s =
     (let (result, chat', lg) = sendMessage sv chat request (log s)
      in case result of
           Inl e \<Rightarrow> (result, chat', s\<lparr> log := lg \<rparr>)
         | Inr r \<Rightarrow>
             (result, chat',
              s\<lparr> chatSessions := session_mutated sessionId chat' (chatSessions s), log := lg \<rparr>))"

subsection \<open>HTTP requests and responses\<close>

text \<open>
  \<open>chat_request\<close> is a parsed request body, \<open>dashboard_request\<close> the query of a request. The
  interface types their fields as strings; a field that the request does not carry is
  \<open>None\<close>. \<^verbatim>\<open>!x\<close> holds of a missing field and of the empty string.
\<close>

record chat_request =
  body_message :: "jsstring option"
  body_sessionId :: "jsstring option"

record dashboard_request =
  query_sessionId :: "jsstring option"

fun falsy :: "jsstring option \<Rightarrow> bool" where
  "falsy None = True"
| "falsy (Some s) = (s = [])"

fun string_of :: "jsstring option \<Rightarrow> jsstring" where
  "string_of None = []"
| "string_of (Some s) = s"

record asset =
  asset_type :: jsstring
  asset_value :: jsnum

record dashboardData =
  netWorth :: jsnum
  assets :: "asset list"
  creditScore :: jsnum

datatype body = ErrorBody jsstring | ReplyBody jsstring | DashboardBody dashboardData

record http_response =
  status :: nat
  body :: body

definition bad_request_chat :: http_response where
  "bad_request_chat = \<lparr> status = 400, body = ErrorBody (js ''Message and sessionId are required.'') \<rparr>"

definition internal_error :: http_response where
  "internal_error = \<lparr> status = 500, body = ErrorBody (js ''An internal server error occurred.'') \<rparr>"

definition bad_request_dashboard :: http_response where
  "bad_request_dashboard = \<lparr> status = 400, body = ErrorBody (js ''sessionId is required.'') \<rparr>"

definition dashboard_failed :: http_response where
  "dashboard_failed = \<lparr> status = 500, body = ErrorBody (js ''Failed to fetch dashboard data.'') \<rparr>"

definition ok :: "body \<Rightarrow> http_response" where
  "ok b = \<lparr> status = 200, body = b \<rparr>"

subsection \<open>The chat endpoint\<close>

text \<open>
  The function responses sent back to the model: the \<open>i\<close>-th tool response under the name
  of the \<open>i\<close>-th function call. (\<^verbatim>\<open>Promise.all\<close> gives as many responses as there were
  calls.)
\<close>

definition functionResponses :: "functionCall list \<Rightarrow> jsval list \<Rightarrow> functionResponse list" where
  "functionResponses fcs toolResponses =
     map (\<lambda>(fc, toolResponse). \<lparr> fr_name = fc_name fc, fr_response = toolResponse \<rparr>)
       (zip fcs toolResponses)"

text \<open>
  The \<^verbatim>\<open>while (true)\<close> loop, entered with the latest \<open>result\<close> of the model. It may run
  forever (a model that asks for tools at every turn), so it is a partial function:
  \<open>None\<close> is the run that does not end, \<open>Some (Inl e, s)\<close> a throw, \<open>Some (Inr result, s)\<close> the
  \<^verbatim>\<open>break\<close> with the result that asked for no tool.
\<close>

partial_function (option) reasoning_loop ::
  "services \<Rightarrow> jsstring \<Rightarrow> content list \<Rightarrow> response \<Rightarrow> server \<Rightarrow> ((error + response) \<times> server) option" where
  "reasoning_loop sv sessionId chat result s =
     (case functionCalls result of
        Inl e \<Rightarrow> Some (Inl e, s)
      | Inr None \<Rightarrow> Some (Inr result, s)
      | Inr (Some []) \<Rightarrow> Some (Inr result, s)
      | Inr (Some (fc # fcs)) \<Rightarrow>
          (let (outcomes, lg) =
                 post_all sv (map (\<lambda>functionCall. tool_request sessionId (fc_name functionCall)) (fc # fcs)) (log s);
               s1 = s\<lparr> log := lg \<rparr>
           in case promise_all outcomes of
                Inl e \<Rightarrow> Some (Inl e, s1)
              | Inr toolResponses \<Rightarrow>
                  (case chat_sendMessage sv sessionId chat
                          (FunctionResponses (functionResponses (fc # fcs) toolResponses)) s1 of
                     (Inl e, chat', s2) \<Rightarrow> Some (Inl e, s2)
                   | (Inr result', chat', s2) \<Rightarrow> reasoning_loop sv sessionId chat' result' s2)))"

declare reasoning_loop.simps [code]

text \<open>
  The \<^verbatim>\<open>try\<close> block behind the input check: look the session up or start one, send the
  message, run the loop, clean the final text.
\<close>

definition chat_try ::
  "services \<Rightarrow> jsstring \<Rightarrow> jsstring \<Rightarrow> server \<Rightarrow> ((error + jsstring) \<times> server) option" where
  "chat_try sv message sessionId s =
     (let (chat, s1) =
            (case chatSessions s sessionId of
               Some chat \<Rightarrow> (chat, s)
             | None \<Rightarrow> (startChat, s\<lparr> chatSessions := (chatSessions s)(sessionId \<mapsto> startChat) \<rparr>))
      in case chat_sendMessage sv sessionId chat (UserText message) s1 of
           (Inl e, chat', s2) \<Rightarrow> Some (Inl e, s2)
         | (Inr result, chat', s2) \<Rightarrow>
             (case reasoning_loop sv sessionId chat' result s2 of
                None \<Rightarrow> None
              | Some (Inl e, s3) \<Rightarrow> Some (Inl e, s3)
              | Some (Inr result', s3) \<Rightarrow>
                  Some (bindE (response_text result')
                          (\<lambda>finalReplyText. Inr (cleanedReply finalReplyText)), s3)))"

text \<open>
  \<^verbatim>\<open>app.post('/api/chat', ...)\<close> on a request whose body has been parsed: the input check, the
  \<^verbatim>\<open>try\<close> block and its \<^verbatim>\<open>catch\<close>.
\<close>

definition chat_handler ::
  "services \<Rightarrow> chat_request \<Rightarrow> server \<Rightarrow> (http_response \<times> server) option" where
  "chat_handler sv req s =
     (let message = body_message req; sessionId = body_sessionId req
      in if falsy message \<or> falsy sessionId then Some (bad_request_chat, s)
         else case chat_try sv (string_of message) (string_of sessionId) s of
                None \<Rightarrow> None
              | Some (Inl e, s') \<Rightarrow> Some (internal_error, s')
              | Some (Inr cleaned, s') \<Rightarrow> Some (ok (ReplyBody cleaned), s'))"

text \<open>
  \<^verbatim>\<open>app.post('/api/chat', ...)\<close> on any request. \<^verbatim>\<open>req.body\<close> is what \<^verbatim>\<open>express.json()\<close> has left
  there: the parsed body, or \<^verbatim>\<open>undefined\<close> (\<open>None\<close>) when it has parsed none. (Express 5 leaves
  \<^verbatim>\<open>undefined\<close>; Express 4 leaves an empty object, which is a parsed body without fields.
  The repository does not say which it runs on.) The first statement of the \<^verbatim>\<open>try\<close> block,
  \<^verbatim>\<open>const { message, sessionId } = req.body\<close>, throws a \<^verbatim>\<open>TypeError\<close> on \<^verbatim>\<open>undefined\<close>, and the
  \<^verbatim>\<open>catch\<close> answers.
\<close>

definition chat_endpoint ::
  "services \<Rightarrow> chat_request option \<Rightarrow> server \<Rightarrow> (http_response \<times> server) option" where
  "chat_endpoint sv req_body s =
     (case req_body of
        None \<Rightarrow> Some (internal_error, s)
      | Some req \<Rightarrow> chat_handler sv req s)"

subsection \<open>The dashboard endpoint\<close>

definition toolsToFetch :: "jsstring list" where
  "toolsToFetch = [js ''fetch_net_worth'', js ''fetch_credit_report'']"

text \<open>\<^verbatim>\<open>toolResponses[i].data\<close>\<close>

definition response_data :: "jsval list \<Rightarrow> nat \<Rightarrow> error + jsval" where
  "response_data toolResponses i =
     (if i < length toolResponses then Inr (toolResponses ! i) else Inl TypeError)"

text \<open>\<^verbatim>\<open>JSON.parse(toolResponses[i].data.result.content[0].text)\<close>\<close>

definition tool_result :: "services \<Rightarrow> jsval list \<Rightarrow> nat \<Rightarrow> error + jsval" where
  "tool_result sv toolResponses i =
     bindE (response_data toolResponses i) (\<lambda>data.
     bindE (path data [Prop (js ''result''), Prop (js ''content''), Index 0, Prop (js ''text'')]) (\<lambda>t.
     bindE (toString t) (JSON_parse sv)))"

text \<open>\<^verbatim>\<open>item => !item.netWorthAttribute.startsWith("LIABILITY_TYPE")\<close>\<close>

definition is_asset :: "jsval \<Rightarrow> error + bool" where
  "is_asset item =
     bindE (path item [Prop (js ''netWorthAttribute'')]) (\<lambda>a.
     bindE (as_string a) (\<lambda>netWorthAttribute.
     Inr (\<not> startsWith netWorthAttribute (js ''LIABILITY_TYPE''))))"

text \<open>\<^verbatim>\<open>netWorthAttribute.replace("ASSET_TYPE_", "").replace("_", " ")\<close>\<close>

definition asset_label :: "jsstring \<Rightarrow> jsstring" where
  "asset_label netWorthAttribute =
     replace (replace netWorthAttribute (js ''ASSET_TYPE_'') []) (js ''_'') (js '' '')"

text \<open>\<^verbatim>\<open>asset => ({ type: ..., value: parseInt(asset.value.units) })\<close>\<close>

definition asset_of :: "jsval \<Rightarrow> error + asset" where
  "asset_of a =
     bindE (path a [Prop (js ''netWorthAttribute'')]) (\<lambda>attr.
     bindE (as_string attr) (\<lambda>netWorthAttribute.
     bindE (path a [Prop (js ''value''), Prop (js ''units'')]) (\<lambda>units.
     bindE (parseInt units) (\<lambda>n.
     Inr \<lparr> asset_type = asset_label netWorthAttribute, asset_value = n \<rparr>))))"

text \<open>
  The navigation of the two parsed results: the net worth, the asset list (filtered, then
  mapped) and the credit score, in the order of the source.
\<close>

definition dashboard_shape :: "jsval \<Rightarrow> jsval \<Rightarrow> error + dashboardData" where
  "dashboard_shape netWorthRaw creditReportRaw =
     bindE (path netWorthRaw
              [Prop (js ''netWorthResponse''), Prop (js ''totalNetWorthValue''), Prop (js ''units'')]) (\<lambda>u.
     bindE (parseInt u) (\<lambda>netWorthValue.
     bindE (path netWorthRaw [Prop (js ''netWorthResponse''), Prop (js ''assetValues'')]) (\<lambda>av.
     bindE (as_array av) (\<lambda>assetValues.
     bindE (filterE is_asset assetValues) (\<lambda>kept.
     bindE (mapE asset_of kept) (\<lambda>assetsArray.
     bindE (path creditReportRaw
              [Prop (js ''creditReports''), Index 0, Prop (js ''creditReportData''),
               Prop (js ''score''), Prop (js ''bureauScore'')]) (\<lambda>b.
     bindE (parseInt b) (\<lambda>creditScoreValue.
     Inr \<lparr> netWorth = netWorthValue, assets = assetsArray, creditScore = creditScoreValue \<rparr>))))))))"

text \<open>The body of the \<^verbatim>\<open>try\<close> block from the two responses on.\<close>

definition dashboard_data :: "services \<Rightarrow> jsval list \<Rightarrow> error + dashboardData" where
  "dashboard_data sv toolResponses =
     bindE (tool_result sv toolResponses 0) (\<lambda>netWorthRaw.
     bindE (tool_result sv toolResponses 1) (\<lambda>creditReportRaw.
     dashboard_shape netWorthRaw creditReportRaw))"

text \<open>\<^verbatim>\<open>app.get('/api/dashboard', ...)\<close>\<close>

definition dashboard_handler ::
  "services \<Rightarrow> dashboard_request \<Rightarrow> server \<Rightarrow> http_response \<times> server" where
  "dashboard_handler sv req s =
     (let sessionId = query_sessionId req
      in if falsy sessionId then (bad_request_dashboard, s)
         else
           (let (outcomes, lg) =
                  post_all sv (map (tool_request (string_of sessionId)) toolsToFetch) (log s);
                s' = s\<lparr> log := lg \<rparr>
            in case bindE (promise_all outcomes) (dashboard_data sv) of
                 Inl e \<Rightarrow> (dashboard_failed, s')
               | Inr dashboardData \<Rightarrow> (ok (DashboardBody dashboardData), s')))"

subsection \<open>Well-formed relay calls and tool results\<close>

text \<open>
  What every relay call has to look like: the fixed endpoint, a JSON-RPC 2.0 body with the
  method \<^verbatim>\<open>tools/call\<close>, an empty \<^verbatim>\<open>arguments\<close> object and the session identifier in the \<^verbatim>\<open>Mcp-Session-Id\<close> header.
  A call of the model is no relay call and passes.
\<close>

definition relay_well_formed :: "jsstring \<Rightarrow> event \<Rightarrow> bool" where
  "relay_well_formed sessionId ev =
     (case ev of
        ModelCall contents \<Rightarrow> True
      | RelayCall r \<Rightarrow>
          url r = js ''http://localhost:8080/mcp/stream'' \<and>
          rpc_jsonrpc r = js ''2.0'' \<and>
          rpc_method r = js ''tools/call'' \<and>
          params_arguments r = JObj [] \<and>
          header_mcp_session_id r = sessionId)"

text \<open>
  What a well-formed entry of \<^verbatim>\<open>assetValues\<close> carries: its type tag, a string, and the
  integer parsed from \<^verbatim>\<open>value.units\<close>.
\<close>

definition entry_fields :: "jsval \<Rightarrow> (jsstring \<times> jsnum) option" where
  "entry_fields item =
     (case path item [Prop (js ''netWorthAttribute'')] of
        Inr (JStr a) \<Rightarrow>
          (case bindE (path item [Prop (js ''value''), Prop (js ''units'')]) parseInt of
             Inr n \<Rightarrow> Some (a, n)
           | Inl e \<Rightarrow> None)
      | _ \<Rightarrow> None)"

subsection \<open>A mock of the collaborators\<close>

text \<open>
  A small world to run the handlers in. The tool server knows the two tools of the
  dashboard and rejects every other name. For the session \<^verbatim>\<open>no-units\<close> its net worth lacks
  the \<^verbatim>\<open>units\<close> of the total, for the session \<^verbatim>\<open>empty\<close> its net worth is the empty object,
  and for the session \<^verbatim>\<open>offline\<close> the credit report is out of reach. \<open>mock_parse\<close> is
  \<^verbatim>\<open>JSON.parse\<close> on the texts the tool server sends.
\<close>

definition quoted :: "string \<Rightarrow> jsstring" where
  "quoted s = [0x0022] @ js s @ [0x0022]"

definition netWorth_text :: jsstring where
  "netWorth_text =
     js ''{'' @ quoted ''netWorthResponse'' @ js '':{'' @ quoted ''assetValues'' @ js '':[{'' @
     quoted ''netWorthAttribute'' @ js '':'' @ quoted ''ASSET_TYPE_MUTUAL_FUND'' @ js '','' @
     quoted ''value'' @ js '':{'' @ quoted ''units'' @ js '':'' @ quoted ''84613'' @ js ''}},{'' @
     quoted ''netWorthAttribute'' @ js '':'' @ quoted ''LIABILITY_TYPE_HOME_LOAN'' @ js '','' @
     quoted ''value'' @ js '':{'' @ quoted ''units'' @ js '':'' @ quoted ''5000'' @ js ''}}],'' @
     quoted ''totalNetWorthValue'' @ js '':{'' @ quoted ''units'' @ js '':'' @ quoted ''658305'' @
     js ''}}}''"

definition netWorth_parsed :: jsval where
  "netWorth_parsed =
     JObj [(js ''netWorthResponse'', JObj
       [(js ''assetValues'', JArr
          [JObj [(js ''netWorthAttribute'', JStr (js ''ASSET_TYPE_MUTUAL_FUND'')),
                 (js ''value'', JObj [(js ''units'', JStr (js ''84613''))])],
           JObj [(js ''netWorthAttribute'', JStr (js ''LIABILITY_TYPE_HOME_LOAN'')),
                 (js ''value'', JObj [(js ''units'', JStr (js ''5000''))])]]),
        (js ''totalNetWorthValue'', JObj [(js ''units'', JStr (js ''658305''))])])]"

definition netWorth_no_units_text :: jsstring where
  "netWorth_no_units_text =
     js ''{'' @ quoted ''netWorthResponse'' @ js '':{'' @ quoted ''assetValues'' @ js '':[],'' @
     quoted ''totalNetWorthValue'' @ js '':{}}}''"

definition netWorth_no_units_parsed :: jsval where
  "netWorth_no_units_parsed =
     JObj [(js ''netWorthResponse'', JObj
       [(js ''assetValues'', JArr []),
        (js ''totalNetWorthValue'', JObj [])])]"

definition creditReport_text :: jsstring where
  "creditReport_text =
     js ''{'' @ quoted ''creditReports'' @ js '':[{'' @ quoted ''creditReportData'' @ js '':{'' @
     quoted ''score'' @ js '':{'' @ quoted ''bureauScore'' @ js '':'' @ quoted ''746'' @ js ''}}}]}''"

definition creditReport_parsed :: jsval where
  "creditReport_parsed =
     JObj [(js ''creditReports'', JArr
       [JObj [(js ''creditReportData'', JObj
          [(js ''score'', JObj [(js ''bureauScore'', JStr (js ''746''))])])]])]"

definition mock_parse :: "jsstring \<Rightarrow> error + jsval" where
  "mock_parse s =
     (if s = netWorth_text then Inr netWorth_parsed
      else if s = netWorth_no_units_text then Inr netWorth_no_units_parsed
      else if s = creditReport_text then Inr creditReport_parsed
      else if s = js ''{}'' then Inr (JObj [])
      else Inl SyntaxError)"

definition tool_response :: "jsstring \<Rightarrow> jsval" where
  "tool_response t =
     JObj [(js ''jsonrpc'', JStr (js ''2.0'')),
           (js ''id'', JNum (js ''1'')),
           (js ''result'', JObj [(js ''content'', JArr
              [JObj [(js ''type'', JStr (js ''text'')), (js ''text'', JStr t)]])])]"

definition mock_post :: "event list \<Rightarrow> relay_request \<Rightarrow> error + jsval" where
  "mock_post lg r =
     (if params_name r = js ''fetch_net_worth'' then
        (if header_mcp_session_id r = js ''no-units'' then Inr (tool_response netWorth_no_units_text)
         else if header_mcp_session_id r = js ''empty'' then Inr (tool_response (js ''{}''))
         else Inr (tool_response netWorth_text))
      else if params_name r = js ''fetch_credit_report'' then
        (if header_mcp_session_id r = js ''offline'' then Inl AxiosError
         else Inr (tool_response creditReport_text))
      else Inl AxiosError)"

text \<open>
  The model of the mock. To \<^verbatim>\<open>hello\<close> it answers with a text at once; to \<^verbatim>\<open>down\<close> the call
  fails; to \<^verbatim>\<open>epf\<close> it asks for a tool the server rejects, beside one it knows; to any
  other message it asks for the two dashboard tools, with arguments. To tool results it
  answers with a fenced JSON text.
\<close>

definition wants :: "jsstring list \<Rightarrow> response" where
  "wants names =
     \<lparr> functionCalls =
         Inr (Some (map (\<lambda>n. \<lparr> fc_name = n, fc_args = JObj [(js ''period'', JStr (js ''1y''))] \<rparr>) names)),
       response_text = Inr [] \<rparr>"

definition says :: "jsstring \<Rightarrow> response" where
  "says t = \<lparr> functionCalls = Inr None, response_text = Inr t \<rparr>"

definition mock_generate :: "event list \<Rightarrow> content list \<Rightarrow> error + response" where
  "mock_generate lg contents =
     (case rev contents of
        UserText m # earlier \<Rightarrow>
          (if m = js ''hello'' then Inr (says (js '' Hi there. ''))
           else if m = js ''down'' then Inl GoogleGenerativeAIError
           else if m = js ''epf'' then Inr (wants [js ''fetch_net_worth'', js ''fetch_epf_details''])
           else Inr (wants [js ''fetch_net_worth'', js ''fetch_credit_report'']))
      | FunctionResponses frs # earlier \<Rightarrow>
          Inr (says (fence_json @ js ''{}'' @ [0x000A] @ fence @ [0x000A]))
      | _ \<Rightarrow> Inl GoogleGenerativeAIError)"

definition mock :: services where
  "mock = \<lparr> generate = mock_generate, post = mock_post, JSON_parse = mock_parse \<rparr>"

definition empty_server :: server where
  "empty_server = \<lparr> chatSessions = Map.empty, log = [] \<rparr>"

section \<open>Properties\<close>

subsection \<open>Relay batches\<close>

lemma post_all_log: "snd (post_all sv rs lg) = lg @ map RelayCall rs"
  by (induction rs arbitrary: lg) (simp_all add: split_beta)


lemma promise_all_map_Inr: "promise_all (map Inr xs) = Inr xs"
  by (induction xs) (simp_all add: bindE_def)

lemma promise_all_Inr_D: "promise_all ps = Inr xs \<Longrightarrow> ps = map Inr xs"
proof (induction ps arbitrary: xs)
  case Nil
  then show ?case by simp
next
  case (Cons p ps)
  show ?case
  proof (cases p)
    case (Inl e)
    with Cons.prems show ?thesis by simp
  next
    case (Inr x)
    show ?thesis
    proof (cases "promise_all ps")
      case (Inl e)
      with Cons.prems \<open>p = Inr x\<close> show ?thesis by (simp add: bindE_def)
    next
      case (Inr ys)
      with Cons.prems \<open>p = Inr x\<close> have "xs = x # ys" by (simp add: bindE_def)
      moreover have "ps = map Inr ys" using Cons.IH [OF Inr] .
      ultimately show ?thesis using \<open>p = Inr x\<close> by simp
    qed
  qed
qed

lemma promise_all_Inl: "Inl e \<in> set ps \<Longrightarrow> \<exists>e'. promise_all ps = Inl e'"
proof (induction ps)
  case Nil
  then show ?case by simp
next
  case (Cons p ps)
  then show ?case
    by (cases p; cases "promise_all ps") (auto simp: bindE_def)
qed

lemma session_mutated_held:
  "sessions sid = Some held \<Longrightarrow> session_mutated sid chat' sessions = sessions(sid \<mapsto> chat')"
  by (simp add: session_mutated_def)

lemma session_mutated_absent:
  "sessions sid = None \<Longrightarrow> session_mutated sid chat' sessions = sessions"
  by (simp add: session_mutated_def)

lemma dom_session_mutated: "dom (session_mutated sid chat' sessions) = dom sessions"
  by (auto simp: session_mutated_def split: option.splits)

lemma chat_sendMessage_Inl:
  assumes "chat_sendMessage sv sid chat req s = (Inl e, chat', s')"
  shows "chat' = chat"
    and "s' = s\<lparr>log := log s @ [ModelCall (chat @ [req])]\<rparr>"
    and "generate sv (log s) (chat @ [req]) = Inl e"
  using assms
  by (auto simp: chat_sendMessage_def sendMessage_def Let_def split: sum.splits)

lemma chat_sendMessage_Inr:
  assumes "chat_sendMessage sv sid chat req s = (Inr res, chat', s')"
  shows "chat' = chat @ [req, ModelContent res]"
    and "s' = s\<lparr>chatSessions := session_mutated sid (chat @ [req, ModelContent res]) (chatSessions s),
                  log := log s @ [ModelCall (chat @ [req])]\<rparr>"
    and "generate sv (log s) (chat @ [req]) = Inr res"
  using assms
  by (auto simp: chat_sendMessage_def sendMessage_def Let_def split: sum.splits)

lemma tool_request_well_formed: "relay_well_formed sid (RelayCall (tool_request sid name))"
  by (simp add: relay_well_formed_def tool_request_def GO_ADK_URL_def js_def)

text \<open>
  What a run of the loop does to a session that the registry holds: its history grows,
  the other entries stay, and the calls issued are well formed.
\<close>

lemma reasoning_loop_effects:
  assumes "reasoning_loop sv sid chat result s = Some y"
  shows "chatSessions s sid = Some chat \<longrightarrow>
         (\<exists>ext. chatSessions (snd y) sid = Some (chat @ ext)) \<and>
         (\<forall>k. k \<noteq> sid \<longrightarrow> chatSessions (snd y) k = chatSessions s k) \<and>
         (\<exists>evs. log (snd y) = log s @ evs \<and> list_all (relay_well_formed sid) evs)"
proof (induction rule: reasoning_loop.raw_induct [OF _ assms])
  case (1 loop sv sid chat result s y)
  show ?case
  proof (cases "functionCalls result")
    case (Inl e)
    with 1(2) show ?thesis by auto
  next
    case (Inr fco)
    show ?thesis
    proof (cases fco)
      case None
      with Inr 1(2) show ?thesis by auto
    next
      case (Some fcs)
      show ?thesis
      proof (cases fcs)
        case Nil
        with Inr Some 1(2) show ?thesis by auto
      next
        case (Cons fc fcs')
        define reqs where "reqs = map (\<lambda>functionCall. tool_request sid (fc_name functionCall)) (fc # fcs')"
        define s1 where "s1 = s\<lparr>log := log s @ map RelayCall reqs\<rparr>"
        have relays: "list_all (relay_well_formed sid) (map RelayCall reqs)"
          unfolding reqs_def by (simp add: list_all_iff tool_request_well_formed)
        obtain outcomes lg where pa: "post_all sv reqs (log s) = (outcomes, lg)"
          by (cases "post_all sv reqs (log s)")
        then have lg: "lg = log s @ map RelayCall reqs"
          using post_all_log [of sv reqs "log s"] by simp
        from 1(2) have "(let (outcomes, lg) = post_all sv reqs (log s); s1 = s\<lparr>log := lg\<rparr>
            in case promise_all outcomes of Inl e \<Rightarrow> Some (Inl e, s1)
              | Inr toolResponses \<Rightarrow>
                 (case chat_sendMessage sv sid chat
                        (FunctionResponses (functionResponses (fc # fcs') toolResponses)) s1 of
                    (Inl e, chat', s2) \<Rightarrow> Some (Inl e, s2)
                  | (Inr result', chat', s2) \<Rightarrow> loop sv sid chat' result' s2)) = Some y"
          unfolding reqs_def by (simp only: Inr Some Cons sum.case option.case list.case)
        then have body: "(case promise_all outcomes of Inl e \<Rightarrow> Some (Inl e, s1)
              | Inr toolResponses \<Rightarrow>
                 (case chat_sendMessage sv sid chat
                        (FunctionResponses (functionResponses (fc # fcs') toolResponses)) s1 of
                    (Inl e, chat', s2) \<Rightarrow> Some (Inl e, s2)
                  | (Inr result', chat', s2) \<Rightarrow> loop sv sid chat' result' s2)) = Some y"
          unfolding pa lg s1_def by (simp only: Let_def prod.case)
        show ?thesis
        proof (cases "promise_all outcomes")
          case (Inl e)
          with body have "y = (Inl e, s1)" by simp
          then show ?thesis using relays by (auto simp: s1_def)
        next
          case (Inr toolResponses)
          obtain r chat' s2 where sm: "chat_sendMessage sv sid chat
                        (FunctionResponses (functionResponses (fc # fcs') toolResponses)) s1 = (r, chat', s2)"
            by (metis prod_cases3)
          show ?thesis
          proof (cases r)
            case (Inl e)
            with body \<open>promise_all outcomes = Inr toolResponses\<close> sm have y: "y = (Inl e, s2)" by simp
            note eff = chat_sendMessage_Inl [OF sm [unfolded Inl]]
            have "log s2 = log s @ (map RelayCall reqs @ [ModelCall (chat @
                 [FunctionResponses (functionResponses (fc # fcs') toolResponses)])])"
              by (simp add: eff(2) s1_def)
            moreover have "list_all (relay_well_formed sid) (map RelayCall reqs @ [ModelCall (chat @
                 [FunctionResponses (functionResponses (fc # fcs') toolResponses)])])"
              using relays by (simp add: relay_well_formed_def)
            moreover have "chatSessions s2 = chatSessions s"
              by (simp add: eff(2) s1_def)
            ultimately show ?thesis
              unfolding y snd_conv
              by (intro impI conjI allI exI [of _ "[]"] exI [of _ "map RelayCall reqs @ [ModelCall (chat @
                 [FunctionResponses (functionResponses (fc # fcs') toolResponses)])]"])
                 (simp_all del: list_all_append)
          next
            case (Inr result')
            with body \<open>promise_all outcomes = Inr toolResponses\<close> sm
            have rec: "loop sv sid chat' result' s2 = Some y" by simp
            note eff = chat_sendMessage_Inr [OF sm [unfolded Inr]]
            have cs2: "chatSessions s2 = session_mutated sid chat' (chatSessions s)"
              by (simp add: eff(1,2) s1_def)
            have lg2: "log s2 = log s @ (map RelayCall reqs @ [ModelCall (chat @
                 [FunctionResponses (functionResponses (fc # fcs') toolResponses)])])"
              by (simp add: eff(2) s1_def)
            have wf2: "list_all (relay_well_formed sid) (map RelayCall reqs @ [ModelCall (chat @
                 [FunctionResponses (functionResponses (fc # fcs') toolResponses)])])"
              using relays by (simp add: relay_well_formed_def)
            show ?thesis
            proof
              assume held: "chatSessions s sid = Some chat"
              have cs2': "chatSessions s2 = (chatSessions s)(sid \<mapsto> chat')"
                unfolding cs2 using held by (rule session_mutated_held)
              from 1(1) [OF rec] cs2'
              obtain ext evs where ih:
                "chatSessions (snd y) sid = Some (chat' @ ext)"
                "\<forall>k. k \<noteq> sid \<longrightarrow> chatSessions (snd y) k = chatSessions s2 k"
                "log (snd y) = log s2 @ evs" "list_all (relay_well_formed sid) evs"
                by auto
              have "chatSessions (snd y) sid = Some (chat @ ([FunctionResponses (functionResponses (fc # fcs') toolResponses), ModelContent result'] @ ext))"
                using ih(1) eff(1) by simp
              moreover have "\<forall>k. k \<noteq> sid \<longrightarrow> chatSessions (snd y) k = chatSessions s k"
                using ih(2) cs2' by simp
              moreover have "log (snd y) = log s @ ((map RelayCall reqs @ [ModelCall (chat @
                   [FunctionResponses (functionResponses (fc # fcs') toolResponses)])]) @ evs)"
                using ih(3) lg2 by simp
              moreover have "list_all (relay_well_formed sid) ((map RelayCall reqs @ [ModelCall (chat @
                   [FunctionResponses (functionResponses (fc # fcs') toolResponses)])]) @ evs)"
                using ih(4) wf2 by simp
              ultimately show "(\<exists>ext. chatSessions (snd y) sid = Some (chat @ ext)) \<and>
                (\<forall>k. k \<noteq> sid \<longrightarrow> chatSessions (snd y) k = chatSessions s k) \<and>
                (\<exists>evs. log (snd y) = log s @ evs \<and> list_all (relay_well_formed sid) evs)"
                by blast
            qed
          qed
        qed
      qed
    qed
  qed
qed

subsection \<open>Evaluating the mock\<close>

lemmas mock_defs =
  mock_def mock_generate_def mock_post_def mock_parse_def says_def wants_def empty_server_def
  tool_response_def netWorth_text_def netWorth_parsed_def creditReport_text_def
  creditReport_parsed_def netWorth_no_units_text_def netWorth_no_units_parsed_def quoted_def

lemmas string_defs =
  js_def startsWith_def fence_def fence_json_def is_whitespace_def trim_def cleanedReply_def

lemmas chat_defs =
  chat_endpoint_def chat_handler_def chat_try_def chat_sendMessage_def session_mutated_def
  sendMessage_def startChat_def
  tool_request_def GO_ADK_URL_def functionResponses_def bindE_def ok_def internal_error_def
  bad_request_chat_def

lemmas dashboard_defs =
  dashboard_handler_def dashboard_data_def dashboard_shape_def tool_result_def response_data_def
  toolsToFetch_def is_asset_def asset_of_def asset_label_def parseInt_def parseInt_string_def
  is_digit_def digit_value_def digits_value_def tool_request_def GO_ADK_URL_def bindE_def ok_def
  dashboard_failed_def bad_request_dashboard_def

subsection \<open>Missing input\<close>




subsection \<open>The dashboard and the registry\<close>

text \<open>
  C9. The dashboard endpoint neither reads nor changes the session registry: the registry
  after the request is the registry before it, and with any other registry \<open>m\<close> in place the
  response and the calls issued are the same.
\<close>

theorem dashboard_ignores_registry:
  "chatSessions (snd (dashboard_handler sv q s)) = chatSessions s \<and>
   dashboard_handler sv q (s\<lparr> chatSessions := m \<rparr>) =
     (fst (dashboard_handler sv q s), (snd (dashboard_handler sv q s))\<lparr> chatSessions := m \<rparr>)"
  by (simp add: dashboard_handler_def Let_def split_beta split: sum.splits)

theorem dashboard_ignores_registry_witness:
  "chatSessions (snd (dashboard_handler mock \<lparr> query_sessionId = Some (js ''s1'') \<rparr> empty_server)) =
     chatSessions empty_server"
  using dashboard_ignores_registry
    [where sv = mock and q = "\<lparr> query_sessionId = Some (js ''s1'') \<rparr>" and s = empty_server]
  by simp

subsection \<open>One turn of the reasoning loop\<close>

lemma reasoning_loop_break:
  assumes "functionCalls result = Inr None \<or> functionCalls result = Inr (Some [])"
  shows "reasoning_loop sv sid chat result s = Some (Inr result, s)"
  using assms by (subst reasoning_loop.simps) auto

lemma reasoning_loop_throw:
  assumes "functionCalls result = Inl e"
  shows "reasoning_loop sv sid chat result s = Some (Inl e, s)"
  using assms by (subst reasoning_loop.simps) simp

lemma reasoning_loop_batch:
  assumes "functionCalls result = Inr (Some fcs)" and "fcs \<noteq> []"
  shows "reasoning_loop sv sid chat result s =
     (case promise_all (fst (post_all sv (map (\<lambda>fc. tool_request sid (fc_name fc)) fcs) (log s))) of
        Inl e \<Rightarrow>
          Some (Inl e, s\<lparr>log := log s @ map RelayCall (map (\<lambda>fc. tool_request sid (fc_name fc)) fcs)\<rparr>)
      | Inr toolResponses \<Rightarrow>
          (case chat_sendMessage sv sid chat (FunctionResponses (functionResponses fcs toolResponses))
                  (s\<lparr>log := log s @ map RelayCall (map (\<lambda>fc. tool_request sid (fc_name fc)) fcs)\<rparr>) of
             (Inl e, chat', s2) \<Rightarrow> Some (Inl e, s2)
           | (Inr result', chat', s2) \<Rightarrow> reasoning_loop sv sid chat' result' s2))"
proof -
  obtain fc fcs' where fcs: "fcs = fc # fcs'"
    using assms(2) by (cases fcs) auto
  define reqs where "reqs = map (\<lambda>fc. tool_request sid (fc_name fc)) fcs"
  obtain outcomes lg where pa: "post_all sv reqs (log s) = (outcomes, lg)"
    by (cases "post_all sv reqs (log s)")
  have lg: "lg = log s @ map RelayCall reqs"
    using post_all_log [of sv reqs "log s"] pa by simp
  have step: "reasoning_loop sv sid chat result s =
     (let (outcomes, lg) = post_all sv (map (\<lambda>fc. tool_request sid (fc_name fc)) (fc # fcs')) (log s);
          s1 = s\<lparr>log := lg\<rparr>
      in case promise_all outcomes of
           Inl e \<Rightarrow> Some (Inl e, s1)
         | Inr toolResponses \<Rightarrow>
             (case chat_sendMessage sv sid chat
                     (FunctionResponses (functionResponses (fc # fcs') toolResponses)) s1 of
                (Inl e, chat', s2) \<Rightarrow> Some (Inl e, s2)
              | (Inr result', chat', s2) \<Rightarrow> reasoning_loop sv sid chat' result' s2))"
    by (subst reasoning_loop.simps) (simp only: assms(1) fcs sum.case option.case list.case)
  show ?thesis
    unfolding step
    by (simp only: fcs pa [unfolded reqs_def fcs] lg [unfolded reqs_def fcs] Let_def prod.case fst_conv)
qed

lemma chat_sendMessage_eq:
  "chat_sendMessage sv sid chat req s =
     (case generate sv (log s) (chat @ [req]) of
        Inl e \<Rightarrow> (Inl e, chat, s\<lparr>log := log s @ [ModelCall (chat @ [req])]\<rparr>)
      | Inr r \<Rightarrow>
          (Inr r, chat @ [req, ModelContent r],
           s\<lparr>chatSessions := session_mutated sid (chat @ [req, ModelContent r]) (chatSessions s),
              log := log s @ [ModelCall (chat @ [req])]\<rparr>))"
  by (simp add: chat_sendMessage_def sendMessage_def Let_def split: sum.splits)




subsection \<open>The chat handler, step by step\<close>

lemma chat_try_eq:
  "chat_try sv message sid s =
     (case generate sv (log s)
             ((case chatSessions s sid of None \<Rightarrow> startChat | Some chat \<Rightarrow> chat) @ [UserText message]) of
        Inl e \<Rightarrow>
          Some (Inl e,
            s\<lparr> chatSessions :=
                  (chatSessions s)(sid \<mapsto> (case chatSessions s sid of None \<Rightarrow> startChat | Some chat \<Rightarrow> chat)),
               log := log s @ [ModelCall ((case chatSessions s sid of None \<Rightarrow> startChat | Some chat \<Rightarrow> chat)
                                            @ [UserText message])] \<rparr>)
      | Inr result \<Rightarrow>
          (case reasoning_loop sv sid
                  ((case chatSessions s sid of None \<Rightarrow> startChat | Some chat \<Rightarrow> chat)
                     @ [UserText message, ModelContent result])
                  result
                  (s\<lparr> chatSessions :=
                        (chatSessions s)(sid \<mapsto>
                           (case chatSessions s sid of None \<Rightarrow> startChat | Some chat \<Rightarrow> chat)
                             @ [UserText message, ModelContent result]),
                      log := log s @ [ModelCall ((case chatSessions s sid of None \<Rightarrow> startChat | Some chat \<Rightarrow> chat)
                                                   @ [UserText message])] \<rparr>) of
             None \<Rightarrow> None
           | Some (Inl e, s3) \<Rightarrow> Some (Inl e, s3)
           | Some (Inr result', s3) \<Rightarrow>
               Some (bindE (response_text result') (\<lambda>finalReplyText. Inr (cleanedReply finalReplyText)), s3)))"
  by (cases "chatSessions s sid")
     (simp_all add: chat_try_def chat_sendMessage_eq session_mutated_def map_upd_triv Let_def
        split: sum.splits)

lemma chat_try_effects:
  assumes "chat_try sv message sid s = Some (r, s')"
    and "prior = (case chatSessions s sid of None \<Rightarrow> startChat | Some chat \<Rightarrow> chat)"
  shows "(\<exists>ext. chatSessions s' sid = Some (prior @ ext) \<and>
               (\<forall>cleaned. r = Inr cleaned \<longrightarrow>
                  (\<exists>result rest. ext = [UserText message, ModelContent result] @ rest))) \<and>
        (\<forall>k. k \<noteq> sid \<longrightarrow> chatSessions s' k = chatSessions s k) \<and>
        (\<exists>evs. log s' = log s @ ModelCall (prior @ [UserText message]) # evs \<and>
               list_all (relay_well_formed sid) evs)"
proof -
  let ?contents = "prior @ [UserText message]"
  have eq: "chat_try sv message sid s =
     (case generate sv (log s) ?contents of
        Inl e \<Rightarrow>
          Some (Inl e, s\<lparr> chatSessions := (chatSessions s)(sid \<mapsto> prior), log := log s @ [ModelCall ?contents] \<rparr>)
      | Inr result \<Rightarrow>
          (case reasoning_loop sv sid (prior @ [UserText message, ModelContent result]) result
                  (s\<lparr> chatSessions := (chatSessions s)(sid \<mapsto> prior @ [UserText message, ModelContent result]),
                      log := log s @ [ModelCall ?contents] \<rparr>) of
             None \<Rightarrow> None
           | Some (Inl e, s3) \<Rightarrow> Some (Inl e, s3)
           | Some (Inr result', s3) \<Rightarrow>
               Some (bindE (response_text result') (\<lambda>finalReplyText. Inr (cleanedReply finalReplyText)), s3)))"
    unfolding assms(2) by (rule chat_try_eq)
  show ?thesis
  proof (cases "generate sv (log s) ?contents")
    case (Inl e)
    with assms(1) have r: "r = Inl e"
      and s': "s' = s\<lparr> chatSessions := (chatSessions s)(sid \<mapsto> prior), log := log s @ [ModelCall ?contents] \<rparr>"
      unfolding eq by simp_all
    have "chatSessions s' sid = Some (prior @ [])" by (simp add: s')
    moreover have "\<forall>cleaned. r = Inr cleaned \<longrightarrow>
        (\<exists>result rest. ([]::content list) = [UserText message, ModelContent result] @ rest)"
      by (simp add: r)
    moreover have "\<forall>k. k \<noteq> sid \<longrightarrow> chatSessions s' k = chatSessions s k" by (simp add: s')
    moreover have "log s' = log s @ ModelCall ?contents # []" by (simp add: s')
    moreover have "list_all (relay_well_formed sid) []" by simp
    ultimately show ?thesis by (intro conjI exI)
  next
    case (Inr result)
    let ?chat = "prior @ [UserText message, ModelContent result]"
    let ?s2 = "s\<lparr> chatSessions := (chatSessions s)(sid \<mapsto> ?chat), log := log s @ [ModelCall ?contents] \<rparr>"
    from assms(1) Inr have "(case reasoning_loop sv sid ?chat result ?s2 of
             None \<Rightarrow> None
           | Some (Inl e, s3) \<Rightarrow> Some (Inl e, s3)
           | Some (Inr result', s3) \<Rightarrow>
               Some (bindE (response_text result') (\<lambda>finalReplyText. Inr (cleanedReply finalReplyText)), s3))
         = Some (r, s')"
      unfolding eq by simp
    then obtain y where run: "reasoning_loop sv sid ?chat result ?s2 = Some y"
      and s': "s' = snd y"
      by (cases "reasoning_loop sv sid ?chat result ?s2")
         (auto split: sum.splits)
    have "chatSessions ?s2 sid = Some ?chat" by simp
    with reasoning_loop_effects [OF run]
    obtain ext evs where
      "chatSessions s' sid = Some (?chat @ ext)"
      "\<forall>k. k \<noteq> sid \<longrightarrow> chatSessions s' k = chatSessions ?s2 k"
      "log s' = log ?s2 @ evs" "list_all (relay_well_formed sid) evs"
      unfolding s' by blast
    then have "chatSessions s' sid = Some (prior @ ([UserText message, ModelContent result] @ ext))"
      and "\<forall>k. k \<noteq> sid \<longrightarrow> chatSessions s' k = chatSessions s k"
      and "log s' = log s @ ModelCall ?contents # evs" and "list_all (relay_well_formed sid) evs"
      by simp_all
    moreover have "\<forall>cleaned. r = Inr cleaned \<longrightarrow>
        (\<exists>result' rest. [UserText message, ModelContent result] @ ext =
           [UserText message, ModelContent result'] @ rest)"
      by simp
    ultimately show ?thesis by (intro conjI exI)
  qed
qed

lemma chat_handler_cases:
  assumes "chat_handler sv req s = Some (rsp, s')"
  obtains
    (bad) "falsy (body_message req) \<or> falsy (body_sessionId req)" "rsp = bad_request_chat" "s' = s"
  | (error) e where "\<not> falsy (body_message req)" "\<not> falsy (body_sessionId req)"
      "chat_try sv (string_of (body_message req)) (string_of (body_sessionId req)) s = Some (Inl e, s')"
      "rsp = internal_error"
  | (reply) cleaned where "\<not> falsy (body_message req)" "\<not> falsy (body_sessionId req)"
      "chat_try sv (string_of (body_message req)) (string_of (body_sessionId req)) s = Some (Inr cleaned, s')"
      "rsp = ok (ReplyBody cleaned)"
  using assms
  by (auto simp: chat_handler_def Let_def split: if_splits option.splits sum.splits)

subsection \<open>A request the model answers without tools\<close>

text \<open>
  C3, as the code has it. When the first response of the model to a chat request asks for
  no tool, the handler has called the model once and no tool, and it returns status 200
  with that response's text after the cleaning step: the fence sequences removed, then the
  white space at both ends trimmed. The exchange joins the history of the session.
\<close>

theorem direct_answer_after_one_model_call:
  assumes "body_message req = Some message" and "message \<noteq> []"
    and "body_sessionId req = Some sessionId" and "sessionId \<noteq> []"
    and "chat = (case chatSessions s sessionId of None \<Rightarrow> startChat | Some c \<Rightarrow> c)"
    and "generate sv (log s) (chat @ [UserText message]) = Inr result"
    and "functionCalls result = Inr None \<or> functionCalls result = Inr (Some [])"
    and "response_text result = Inr finalReplyText"
  shows "chat_handler sv req s =
     Some (\<lparr> status = 200, body = ReplyBody (trim (strip_fences finalReplyText)) \<rparr>,
           s\<lparr> chatSessions := (chatSessions s)(sessionId \<mapsto> chat @ [UserText message, ModelContent result]),
              log := log s @ [ModelCall (chat @ [UserText message])] \<rparr>)"
proof -
  have "chat_try sv message sessionId s =
     Some (Inr (cleanedReply finalReplyText),
           s\<lparr> chatSessions := (chatSessions s)(sessionId \<mapsto> chat @ [UserText message, ModelContent result]),
              log := log s @ [ModelCall (chat @ [UserText message])] \<rparr>)"
    unfolding chat_try_eq assms(5) [symmetric]
    by (simp add: assms(6) reasoning_loop_break [OF assms(7)] assms(8) bindE_def)
  then show ?thesis
    by (simp add: chat_handler_def assms(1-4) Let_def ok_def cleanedReply_def)
qed

theorem direct_answer_after_one_model_call_witness:
  "chat_handler mock \<lparr> body_message = Some (js ''hello''), body_sessionId = Some (js ''s2'') \<rparr> empty_server =
     Some (\<lparr> status = 200, body = ReplyBody (js ''Hi there.'') \<rparr>,
           \<lparr> chatSessions =
               [js ''s2'' \<mapsto> [SystemInstruction, UserText (js ''hello''),
                                ModelContent (says (js '' Hi there. ''))]],
             log = [ModelCall [SystemInstruction, UserText (js ''hello'')]] \<rparr>)"
proof -
  have clean: "trim (strip_fences (js '' Hi there. '')) = js ''Hi there.''"
    by (simp add: string_defs)
  show ?thesis
    using direct_answer_after_one_model_call
      [where req = "\<lparr> body_message = Some (js ''hello''), body_sessionId = Some (js ''s2'') \<rparr>"
         and message = "js ''hello''" and sessionId = "js ''s2''" and s = empty_server
         and chat = startChat and sv = mock and result = "says (js '' Hi there. '')"
         and finalReplyText = "js '' Hi there. ''"]
    unfolding clean
    by (simp add: mock_def mock_generate_def says_def empty_server_def startChat_def js_def)
qed

text \<open>
  The claim as the spec states it, the text unchanged but for the code fences, fails on a
  text without any fence: the mock model answers \<^verbatim>\<open>" Hi there. "\<close>, fence stripping leaves
  that text as it is, and the reply is \<^verbatim>\<open>"Hi there."\<close>.
\<close>

theorem reply_is_also_trimmed:
  "generate mock [] [SystemInstruction, UserText (js ''hello'')] = Inr (says (js '' Hi there. '')) \<and>
   strip_fences (js '' Hi there. '') = js '' Hi there. '' \<and>
   map_option fst
     (chat_handler mock \<lparr> body_message = Some (js ''hello''), body_sessionId = Some (js ''s1'') \<rparr>
        empty_server) =
     Some \<lparr> status = 200, body = ReplyBody (js ''Hi there.'') \<rparr> \<and>
   js ''Hi there.'' \<noteq> js '' Hi there. ''"
  by (simp add: mock_defs string_defs chat_defs reasoning_loop.simps Let_def)

subsection \<open>The session registry\<close>

lemma registry_kept:
  assumes "chatSessions s' sid = Some h"
    and "\<forall>k. k \<noteq> sid \<longrightarrow> chatSessions s' k = chatSessions s k"
  shows "dom (chatSessions s) \<subseteq> dom (chatSessions s')"
proof
  fix k
  assume "k \<in> dom (chatSessions s)"
  then show "k \<in> dom (chatSessions s')"
    using assms by (cases "k = sid") (auto simp: domIff)
qed

lemma chat_try_registry:
  assumes "chat_try sv message sid s = Some (r, s')"
  shows "dom (chatSessions s) \<subseteq> dom (chatSessions s')"
proof -
  from chat_try_effects [OF assms refl]
  obtain ext where "chatSessions s' sid =
      Some ((case chatSessions s sid of None \<Rightarrow> startChat | Some chat \<Rightarrow> chat) @ ext)"
    and "\<forall>k. k \<noteq> sid \<longrightarrow> chatSessions s' k = chatSessions s k"
    by blast
  then show ?thesis by (rule registry_kept)
qed

lemma registry_grown:
  assumes "chatSessions s' sid = Some h"
    and "\<forall>k. k \<noteq> sid \<longrightarrow> chatSessions s' k = chatSessions s k"
  shows "dom (chatSessions s') = insert sid (dom (chatSessions s))"
proof (rule set_eqI)
  fix k
  show "k \<in> dom (chatSessions s') \<longleftrightarrow> k \<in> insert sid (dom (chatSessions s))"
    using assms by (cases "k = sid") (auto simp: domIff)
qed

lemma chat_try_registry_grown:
  assumes "chat_try sv message sid s = Some (r, s')"
  shows "dom (chatSessions s') = insert sid (dom (chatSessions s))"
proof -
  from chat_try_effects [OF assms refl]
  obtain ext where "chatSessions s' sid =
      Some ((case chatSessions s sid of None \<Rightarrow> startChat | Some chat \<Rightarrow> chat) @ ext)"
    and "\<forall>k. k \<noteq> sid \<longrightarrow> chatSessions s' k = chatSessions s k"
    by blast
  then show ?thesis by (rule registry_grown)
qed

lemma chat_handler_registry:
  assumes "chat_handler sv req s = Some (rsp, s')"
  shows "dom (chatSessions s) \<subseteq> dom (chatSessions s')"
  using assms
proof (cases rule: chat_handler_cases)
  case bad
  then show ?thesis by simp
next
  case (error e)
  then show ?thesis using chat_try_registry by blast
next
  case (reply cleaned)
  then show ?thesis using chat_try_registry by blast
qed

lemma chat_endpoint_registry:
  assumes "chat_endpoint sv req_body s = Some (rsp, s')"
  shows "dom (chatSessions s) \<subseteq> dom (chatSessions s')"
proof (cases req_body)
  case None
  with assms show ?thesis by (simp add: chat_endpoint_def)
next
  case (Some req)
  with assms have "chat_handler sv req s = Some (rsp, s')" by (simp add: chat_endpoint_def)
  then show ?thesis by (rule chat_handler_registry)
qed

text \<open>
  C5. A chat request for a session identifier without an entry starts a session and puts
  it in the registry (\<^verbatim>\<open>chatSessions.set\<close>, the one place where the registry gains an entry); a
  request for an identifier with an entry sends the stored history with the new message
  to the model, and the stored history grows by what the request exchanges: after a
  request that is answered with status 200 it holds the message and the model's response,
  so the next request for the identifier sends them along. The identifiers of the registry
  after the request are those before it and the identifier of the request; entries of
  other identifiers stay as they are, and no request to either endpoint removes an entry.
\<close>

theorem sessions_are_created_and_reused:
  "(\<not> falsy (body_message req) \<and> \<not> falsy (body_sessionId req) \<and>
    message = string_of (body_message req) \<and> sessionId = string_of (body_sessionId req) \<and>
    prior = (case chatSessions s sessionId of None \<Rightarrow> startChat | Some chat \<Rightarrow> chat) \<and>
    chat_handler sv req s = Some (rsp, s') \<longrightarrow>
      (\<exists>ext. chatSessions s' sessionId = Some (prior @ ext) \<and>
             (status rsp = 200 \<longrightarrow>
                (\<exists>result rest. ext = [UserText message, ModelContent result] @ rest))) \<and>
      (\<exists>evs. log s' = log s @ ModelCall (prior @ [UserText message]) # evs) \<and>
      (\<forall>k. k \<noteq> sessionId \<longrightarrow> chatSessions s' k = chatSessions s k) \<and>
      dom (chatSessions s') = insert sessionId (dom (chatSessions s))) \<and>
   (chat_handler sv req s = Some (rsp, s') \<longrightarrow> dom (chatSessions s) \<subseteq> dom (chatSessions s')) \<and>
   (chat_endpoint sv req_body s = Some (rsp, s') \<longrightarrow> dom (chatSessions s) \<subseteq> dom (chatSessions s')) \<and>
   dom (chatSessions s) \<subseteq> dom (chatSessions (snd (dashboard_handler sv q s)))"
proof (intro conjI impI)
  show "dom (chatSessions s) \<subseteq> dom (chatSessions (snd (dashboard_handler sv q s)))"
    by (simp add: dashboard_handler_def Let_def split_beta split: sum.splits)
next
  assume "chat_handler sv req s = Some (rsp, s')"
  then show "dom (chatSessions s) \<subseteq> dom (chatSessions s')"
    by (rule chat_handler_registry)
next
  assume "chat_endpoint sv req_body s = Some (rsp, s')"
  then show "dom (chatSessions s) \<subseteq> dom (chatSessions s')"
    by (rule chat_endpoint_registry)
next
  assume a: "\<not> falsy (body_message req) \<and> \<not> falsy (body_sessionId req) \<and>
    message = string_of (body_message req) \<and> sessionId = string_of (body_sessionId req) \<and>
    prior = (case chatSessions s sessionId of None \<Rightarrow> startChat | Some chat \<Rightarrow> chat) \<and>
    chat_handler sv req s = Some (rsp, s')"
  then have run: "chat_handler sv req s = Some (rsp, s')"
    and valid: "\<not> falsy (body_message req)" "\<not> falsy (body_sessionId req)"
    and names: "message = string_of (body_message req)" "sessionId = string_of (body_sessionId req)"
    and prior: "prior = (case chatSessions s sessionId of None \<Rightarrow> startChat | Some chat \<Rightarrow> chat)"
    by blast+
  from run valid obtain r where tr: "chat_try sv message sessionId s = Some (r, s')"
    and rsp: "rsp = (case r of Inl e \<Rightarrow> internal_error | Inr cleaned \<Rightarrow> ok (ReplyBody cleaned))"
    unfolding names by (cases rule: chat_handler_cases) auto
  note eff = chat_try_effects [OF tr prior]
  from eff obtain ext where ext: "chatSessions s' sessionId = Some (prior @ ext)"
    and ok: "\<forall>cleaned. r = Inr cleaned \<longrightarrow>
                  (\<exists>result rest. ext = [UserText message, ModelContent result] @ rest)"
    by blast
  have "status rsp = 200 \<longrightarrow> (\<exists>cleaned. r = Inr cleaned)"
    by (cases r) (simp_all add: rsp internal_error_def)
  with ok have "status rsp = 200 \<longrightarrow>
      (\<exists>result rest. ext = [UserText message, ModelContent result] @ rest)"
    by blast
  with ext show "\<exists>ext. chatSessions s' sessionId = Some (prior @ ext) \<and>
             (status rsp = 200 \<longrightarrow>
                (\<exists>result rest. ext = [UserText message, ModelContent result] @ rest))"
    by blast
  from eff show "\<exists>evs. log s' = log s @ ModelCall (prior @ [UserText message]) # evs"
    by blast
  from eff show "\<forall>k. k \<noteq> sessionId \<longrightarrow> chatSessions s' k = chatSessions s k"
    by blast
  from tr show "dom (chatSessions s') = insert sessionId (dom (chatSessions s))"
    by (rule chat_try_registry_grown)
qed

theorem sessions_are_created_and_reused_witness:
  "chat_handler mock \<lparr> body_message = Some (js ''hello''), body_sessionId = Some (js ''s1'') \<rparr> empty_server =
     Some (\<lparr> status = 200, body = ReplyBody (js ''Hi there.'') \<rparr>,
           \<lparr> chatSessions =
               [js ''s1'' \<mapsto> [SystemInstruction, UserText (js ''hello''),
                                ModelContent (says (js '' Hi there. ''))]],
             log = [ModelCall [SystemInstruction, UserText (js ''hello'')]] \<rparr>) \<and>
   chat_handler mock \<lparr> body_message = Some (js ''hello''), body_sessionId = Some (js ''s1'') \<rparr>
     \<lparr> chatSessions =
         [js ''s1'' \<mapsto> [SystemInstruction, UserText (js ''hello''),
                          ModelContent (says (js '' Hi there. ''))]],
       log = [ModelCall [SystemInstruction, UserText (js ''hello'')]] \<rparr> =
     Some (\<lparr> status = 200, body = ReplyBody (js ''Hi there.'') \<rparr>,
           \<lparr> chatSessions =
               [js ''s1'' \<mapsto> [SystemInstruction, UserText (js ''hello''),
                                ModelContent (says (js '' Hi there. '')), UserText (js ''hello''),
                                ModelContent (says (js '' Hi there. ''))]],
             log = [ModelCall [SystemInstruction, UserText (js ''hello'')],
                    ModelCall [SystemInstruction, UserText (js ''hello''),
                               ModelContent (says (js '' Hi there. '')), UserText (js ''hello'')]] \<rparr>) \<and>
   (\<exists>ext result rest.
      [SystemInstruction, UserText (js ''hello''), ModelContent (says (js '' Hi there. ''))] =
      startChat @ ext \<and> ext = [UserText (js ''hello''), ModelContent result] @ rest) \<and>
   (\<exists>ext result rest.
      [SystemInstruction, UserText (js ''hello''), ModelContent (says (js '' Hi there. '')),
       UserText (js ''hello''), ModelContent (says (js '' Hi there. ''))] =
      [SystemInstruction, UserText (js ''hello''), ModelContent (says (js '' Hi there. ''))] @ ext \<and>
      ext = [UserText (js ''hello''), ModelContent result] @ rest)"
proof -
  let ?req = "\<lparr> body_message = Some (js ''hello''), body_sessionId = Some (js ''s1'') \<rparr>"
  let ?rsp = "\<lparr> status = 200, body = ReplyBody (js ''Hi there.'') \<rparr>"
  let ?h1 = "[SystemInstruction, UserText (js ''hello''), ModelContent (says (js '' Hi there. ''))]"
  let ?s1 = "\<lparr> chatSessions = [js ''s1'' \<mapsto> ?h1],
              log = [ModelCall [SystemInstruction, UserText (js ''hello'')]] \<rparr>"
  let ?h2 = "[SystemInstruction, UserText (js ''hello''), ModelContent (says (js '' Hi there. '')),
             UserText (js ''hello''), ModelContent (says (js '' Hi there. ''))]"
  let ?s2 = "\<lparr> chatSessions = [js ''s1'' \<mapsto> ?h2],
              log = [ModelCall [SystemInstruction, UserText (js ''hello'')],
                     ModelCall [SystemInstruction, UserText (js ''hello''),
                                ModelContent (says (js '' Hi there. '')), UserText (js ''hello'')]] \<rparr>"
  have first: "chat_handler mock ?req empty_server = Some (?rsp, ?s1)"
    by (simp add: mock_defs string_defs chat_defs reasoning_loop.simps Let_def)
  have second: "chat_handler mock ?req ?s1 = Some (?rsp, ?s2)"
    by (simp add: mock_defs string_defs chat_defs reasoning_loop.simps Let_def)
  have "\<exists>ext. chatSessions ?s1 (js ''s1'') = Some (startChat @ ext) \<and>
          (status ?rsp = 200 \<longrightarrow> (\<exists>result rest. ext = [UserText (js ''hello''), ModelContent result] @ rest))"
    using sessions_are_created_and_reused
      [where req = ?req and message = "js ''hello''" and sessionId = "js ''s1''" and prior = startChat
         and s = empty_server and sv = mock and rsp = ?rsp and s' = ?s1]
      first
    by (simp add: js_def empty_server_def)
  then have created: "\<exists>ext result rest. ?h1 = startChat @ ext \<and>
      ext = [UserText (js ''hello''), ModelContent result] @ rest"
    by simp
  have "\<exists>ext. chatSessions ?s2 (js ''s1'') = Some (?h1 @ ext) \<and>
          (status ?rsp = 200 \<longrightarrow> (\<exists>result rest. ext = [UserText (js ''hello''), ModelContent result] @ rest))"
    using sessions_are_created_and_reused
      [where req = ?req and message = "js ''hello''" and sessionId = "js ''s1''" and prior = ?h1
         and s = ?s1 and sv = mock and rsp = ?rsp and s' = ?s2]
      second
    by (simp add: js_def)
  then have "\<exists>ext result rest. ?h2 = ?h1 @ ext \<and> ext = [UserText (js ''hello''), ModelContent result] @ rest"
    by simp
  with first second created show ?thesis by blast
qed

subsection \<open>A failed request and its new session\<close>

text \<open>
  C8. When a chat request for a session identifier without an entry ends in status 500,
  the response is the fixed internal error and the entry that \<^verbatim>\<open>chatSessions.set\<close> has
  created is still in the registry: the registry has gained the identifier of the request
  although the request failed. When it is the first call of the model that fails, the
  entry is the session as it was started.
\<close>

theorem failed_request_keeps_new_session:
  assumes "\<not> falsy (body_message req)" and "\<not> falsy (body_sessionId req)"
    and "sessionId = string_of (body_sessionId req)"
    and "chatSessions s sessionId = None"
    and "chat_handler sv req s = Some (rsp, s')"
    and "status rsp = 500"
  shows "rsp = \<lparr> status = 500, body = ErrorBody (js ''An internal server error occurred.'') \<rparr> \<and>
         (\<exists>ext. chatSessions s' sessionId = Some (startChat @ ext)) \<and>
         chatSessions s' \<noteq> chatSessions s \<and>
         dom (chatSessions s') = insert sessionId (dom (chatSessions s)) \<and>
         ((\<exists>e. generate sv (log s) (startChat @ [UserText (string_of (body_message req))]) = Inl e) \<longrightarrow>
            chatSessions s' = (chatSessions s)(sessionId \<mapsto> startChat))"
  using assms(5)
proof (cases rule: chat_handler_cases)
  case bad
  with assms(1,2) show ?thesis by simp
next
  case (reply cleaned)
  with assms(6) show ?thesis by (simp add: ok_def)
next
  case (error e)
  let ?message = "string_of (body_message req)"
  have tr: "chat_try sv ?message sessionId s = Some (Inl e, s')"
    using error(3) assms(3) by simp
  from chat_try_effects [OF tr refl] assms(4)
  obtain ext where entry: "chatSessions s' sessionId = Some (startChat @ ext)"
    by auto
  with assms(4) have changed: "chatSessions s' \<noteq> chatSessions s" by auto
  have grown: "dom (chatSessions s') = insert sessionId (dom (chatSessions s))"
    using tr by (rule chat_try_registry_grown)
  have "chatSessions s' = (chatSessions s)(sessionId \<mapsto> startChat)"
    if "generate sv (log s) (startChat @ [UserText ?message]) = Inl e'" for e'
    using tr unfolding chat_try_eq by (auto simp: assms(4) that)
  with entry changed grown error(4) show ?thesis by (auto simp: internal_error_def)
qed

theorem failed_request_keeps_new_session_witness:
  "chat_handler mock \<lparr> body_message = Some (js ''down''), body_sessionId = Some (js ''s3'') \<rparr> empty_server =
     Some (\<lparr> status = 500, body = ErrorBody (js ''An internal server error occurred.'') \<rparr>,
           \<lparr> chatSessions = [js ''s3'' \<mapsto> [SystemInstruction]],
             log = [ModelCall [SystemInstruction, UserText (js ''down'')]] \<rparr>) \<and>
   chat_handler mock \<lparr> body_message = Some (js ''epf''), body_sessionId = Some (js ''s3'') \<rparr> empty_server =
     Some (\<lparr> status = 500, body = ErrorBody (js ''An internal server error occurred.'') \<rparr>,
           \<lparr> chatSessions =
               [js ''s3'' \<mapsto> [SystemInstruction, UserText (js ''epf''),
                                ModelContent (wants [js ''fetch_net_worth'', js ''fetch_epf_details''])]],
             log = [ModelCall [SystemInstruction, UserText (js ''epf'')],
                    RelayCall (tool_request (js ''s3'') (js ''fetch_net_worth'')),
                    RelayCall (tool_request (js ''s3'') (js ''fetch_epf_details''))] \<rparr>) \<and>
   [js ''s3'' \<mapsto> [SystemInstruction]] \<noteq> chatSessions empty_server \<and>
   [js ''s3'' \<mapsto> [SystemInstruction, UserText (js ''epf''),
                    ModelContent (wants [js ''fetch_net_worth'', js ''fetch_epf_details''])]]
     \<noteq> chatSessions empty_server"
proof -
  let ?down = "\<lparr> body_message = Some (js ''down''), body_sessionId = Some (js ''s3'') \<rparr>"
  let ?epf = "\<lparr> body_message = Some (js ''epf''), body_sessionId = Some (js ''s3'') \<rparr>"
  let ?rsp = "\<lparr> status = 500, body = ErrorBody (js ''An internal server error occurred.'') \<rparr>"
  let ?s1 = "\<lparr> chatSessions = [js ''s3'' \<mapsto> [SystemInstruction]],
              log = [ModelCall [SystemInstruction, UserText (js ''down'')]] \<rparr>"
  let ?s2 = "\<lparr> chatSessions =
               [js ''s3'' \<mapsto> [SystemInstruction, UserText (js ''epf''),
                                ModelContent (wants [js ''fetch_net_worth'', js ''fetch_epf_details''])]],
             log = [ModelCall [SystemInstruction, UserText (js ''epf'')],
                    RelayCall (tool_request (js ''s3'') (js ''fetch_net_worth'')),
                    RelayCall (tool_request (js ''s3'') (js ''fetch_epf_details''))] \<rparr>"
  have down: "chat_handler mock ?down empty_server = Some (?rsp, ?s1)"
    by (simp add: mock_defs string_defs chat_defs reasoning_loop.simps Let_def)
  have epf: "chat_handler mock ?epf empty_server = Some (?rsp, ?s2)"
    by (simp add: mock_defs string_defs chat_defs reasoning_loop.simps Let_def)
  have "chatSessions ?s1 \<noteq> chatSessions empty_server"
    using failed_request_keeps_new_session
      [where req = ?down and sessionId = "js ''s3''" and s = empty_server and sv = mock
         and rsp = ?rsp and s' = ?s1]
      down
    by (simp add: empty_server_def js_def)
  moreover have "chatSessions ?s2 \<noteq> chatSessions empty_server"
    using failed_request_keeps_new_session
      [where req = ?epf and sessionId = "js ''s3''" and s = empty_server and sv = mock
         and rsp = ?rsp and s' = ?s2]
      epf
    by (simp add: empty_server_def js_def)
  ultimately show ?thesis using down epf by simp
qed

subsection \<open>The cleaning step\<close>

lemma startsWith_Nil [simp]: "startsWith s [] = True"
  by (simp add: startsWith_def)

lemma startsWith_empty [simp]: "startsWith [] (p # ps) = False"
  by (simp add: startsWith_def)

lemma startsWith_Cons [simp]: "startsWith (c # cs) (p # ps) \<longleftrightarrow> c = p \<and> startsWith cs ps"
  by (simp add: startsWith_def)

lemma startsWith_iff: "startsWith s p \<longleftrightarrow> (\<exists>zs. s = p @ zs)"
proof
  assume "startsWith s p"
  then have "s = p @ drop (length p) s"
    by (metis append_take_drop_id startsWith_def)
  then show "\<exists>zs. s = p @ zs" ..
next
  assume "\<exists>zs. s = p @ zs"
  then show "startsWith s p" by (auto simp: startsWith_def)
qed

lemma contains_iff: "contains s p \<longleftrightarrow> (\<exists>ys zs. s = ys @ p @ zs)"
proof (induction s)
  case Nil
  then show ?case by auto
next
  case (Cons c cs)
  show ?case
  proof
    assume "contains (c # cs) p"
    then consider "startsWith (c # cs) p" | "contains cs p" by auto
    then show "\<exists>ys zs. c # cs = ys @ p @ zs"
    proof cases
      case 1
      then obtain zs where "c # cs = [] @ p @ zs" by (auto simp: startsWith_iff)
      then show ?thesis by blast
    next
      case 2
      with Cons.IH obtain ys zs where "cs = ys @ p @ zs" by blast
      then have "c # cs = (c # ys) @ p @ zs" by simp
      then show ?thesis by blast
    qed
  next
    assume "\<exists>ys zs. c # cs = ys @ p @ zs"
    then obtain ys zs where eq: "c # cs = ys @ p @ zs" by blast
    show "contains (c # cs) p"
    proof (cases ys)
      case Nil
      with eq have "startsWith (c # cs) p" by (auto simp: startsWith_iff)
      then show ?thesis by simp
    next
      case (Cons y ys')
      with eq have "cs = ys' @ p @ zs" by simp
      with Cons.IH have "contains cs p" by blast
      then show ?thesis by simp
    qed
  qed
qed

lemma trim_infix: "\<exists>ys zs. s = ys @ trim s @ zs"
proof -
  let ?d = "dropWhile is_whitespace s"
  have "rev (takeWhile is_whitespace (rev ?d) @ dropWhile is_whitespace (rev ?d)) = ?d"
    by simp
  then have "?d = trim s @ rev (takeWhile is_whitespace (rev ?d))"
    unfolding trim_def by (metis rev_append)
  moreover have "s = takeWhile is_whitespace s @ ?d" by simp
  ultimately have "s = takeWhile is_whitespace s @ trim s @ rev (takeWhile is_whitespace (rev ?d))"
    by simp
  then show ?thesis by blast
qed

lemma contains_trim:
  assumes "contains (trim s) p"
  shows "contains s p"
proof -
  from assms obtain ys zs where "trim s = ys @ p @ zs"
    by (auto simp: contains_iff)
  moreover obtain us vs where "s = us @ trim s @ vs"
    using trim_infix by blast
  ultimately have "s = (us @ ys) @ p @ (zs @ vs)" by simp
  then show ?thesis unfolding contains_iff by blast
qed

lemma trim_ends:
  "trim s = [] \<or> (\<not> is_whitespace (hd (trim s)) \<and> \<not> is_whitespace (last (trim s)))"
proof (cases "trim s = []")
  case True
  then show ?thesis by simp
next
  case False
  let ?d = "dropWhile is_whitespace s"
  let ?e = "dropWhile is_whitespace (rev ?d)"
  have t: "trim s = rev ?e" by (simp add: trim_def)
  with False have e: "?e \<noteq> []" by simp
  then have "\<not> is_whitespace (hd ?e)" by (rule hd_dropWhile)
  then have last: "\<not> is_whitespace (last (trim s))"
    using e by (simp add: t last_rev)
  obtain ws where d: "?d = trim s @ ws"
  proof -
    have "rev (takeWhile is_whitespace (rev ?d) @ ?e) = ?d" by simp
    then have "?d = trim s @ rev (takeWhile is_whitespace (rev ?d))"
      unfolding t by (metis rev_append)
    then show ?thesis using that by blast
  qed
  with False have "?d \<noteq> []" by auto
  then have "\<not> is_whitespace (hd ?d)" by (rule hd_dropWhile)
  moreover have "hd ?d = hd (trim s)" using d False by (metis hd_append2)
  ultimately show ?thesis using last by simp
qed

lemma fence_eq: "fence = [0x60, 0x60, 0x60]"
  by (simp add: fence_def js_def)

lemma fence_json_eq: "fence_json = fence @ js ''json'' @ [0x000A]"
  by (simp add: fence_json_def fence_def js_def)

lemma strip_fences_invariant:
  "(startsWith (strip_fences s) [0x60] \<longrightarrow> startsWith s [0x60]) \<and>
   (startsWith (strip_fences s) [0x60, 0x60] \<longrightarrow> startsWith s [0x60, 0x60]) \<and>
   \<not> contains (strip_fences s) fence"
proof (induction s rule: strip_fences.induct)
  case 1
  show ?case by (simp add: fence_eq)
next
  case (2 c cs)
  show ?case
  proof (cases "startsWith (c # cs) fence_json")
    case True
    then have "startsWith (c # cs) fence"
      unfolding startsWith_iff fence_json_eq by auto
    then have "startsWith (c # cs) [0x60]" "startsWith (c # cs) [0x60, 0x60]"
      by (auto simp: fence_eq startsWith_iff)
    moreover have "\<not> contains (strip_fences (c # cs)) fence"
      using "2.IH"(1) [OF True] True by simp
    ultimately show ?thesis by blast
  next
    case False
    show ?thesis
    proof (cases "startsWith (c # cs) fence")
      case True
      then have "startsWith (c # cs) [0x60]" "startsWith (c # cs) [0x60, 0x60]"
        by (auto simp: fence_eq startsWith_iff)
      moreover have "\<not> contains (strip_fences (c # cs)) fence"
        using "2.IH"(2) [OF False True] False True by simp
      ultimately show ?thesis by blast
    next
      case nofence: False
      have out: "strip_fences (c # cs) = c # strip_fences cs"
        using False nofence by simp
      note ih = "2.IH"(3) [OF False nofence]
      from nofence have nf: "\<not> (c = 0x60 \<and> startsWith cs [0x60, 0x60])"
        by (simp add: fence_eq)
      show ?thesis
        unfolding out using ih nf by (auto simp: fence_eq)
    qed
  qed
qed

lemma contains_prefix_of_pattern:
  assumes "contains s (p @ q)"
  shows "contains s p"
proof -
  from assms obtain ys zs where "s = ys @ (p @ q) @ zs" by (auto simp: contains_iff)
  then have "s = ys @ p @ (q @ zs)" by simp
  then show ?thesis unfolding contains_iff by blast
qed

lemma cleanedReply_clean:
  "(cleanedReply t = [] \<or>
      (\<not> is_whitespace (hd (cleanedReply t)) \<and> \<not> is_whitespace (last (cleanedReply t)))) \<and>
   \<not> contains (cleanedReply t) fence \<and> \<not> contains (cleanedReply t) fence_json"
proof -
  have "\<not> contains (cleanedReply t) fence"
    unfolding cleanedReply_def using contains_trim strip_fences_invariant by blast
  moreover from this have "\<not> contains (cleanedReply t) fence_json"
    unfolding fence_json_eq using contains_prefix_of_pattern by blast
  ultimately show ?thesis
    using trim_ends [of "strip_fences t"] by (simp add: cleanedReply_def)
qed

lemma chat_try_reply:
  assumes "chat_try sv message sid s = Some (Inr cleaned, s')"
  shows "\<exists>t. cleaned = cleanedReply t"
proof -
  let ?prior = "case chatSessions s sid of None \<Rightarrow> startChat | Some chat \<Rightarrow> chat"
  show ?thesis
  proof (cases "generate sv (log s) (?prior @ [UserText message])")
    case (Inl e)
    with assms show ?thesis by (simp add: chat_try_eq)
  next
    case (Inr result)
    let ?run = "reasoning_loop sv sid (?prior @ [UserText message, ModelContent result]) result
        (s\<lparr> chatSessions := (chatSessions s)(sid \<mapsto> ?prior @ [UserText message, ModelContent result]),
            log := log s @ [ModelCall (?prior @ [UserText message])] \<rparr>)"
    from assms Inr have "(case ?run of
             None \<Rightarrow> None
           | Some (Inl e, s3) \<Rightarrow> Some (Inl e, s3)
           | Some (Inr result', s3) \<Rightarrow>
               Some (bindE (response_text result') (\<lambda>finalReplyText. Inr (cleanedReply finalReplyText)), s3))
         = Some (Inr cleaned, s')"
      by (simp add: chat_try_eq)
    then have "\<exists>result' :: response.
        bindE (response_text result') (\<lambda>finalReplyText. Inr (cleanedReply finalReplyText)) = Inr cleaned"
      by (cases ?run) (auto split: sum.splits)
    then obtain result' :: response where
      "bindE (response_text result') (\<lambda>finalReplyText. Inr (cleanedReply finalReplyText)) = Inr cleaned"
      ..
    then show ?thesis
      by (cases "response_text result'") (auto simp: bindE_def)
  qed
qed

text \<open>
  C10. A reply of the chat endpoint has no white space at its start or at its end and
  holds no triple backtick, hence no \<^verbatim>\<open>```json\<close> line either: the single scan of the cleaning
  step leaves no fence behind, wherever in the text the fences stand, and the trim that
  follows only shortens the text at its ends.
\<close>

theorem reply_is_clean:
  "chat_handler sv req s = Some (rsp, s') \<and> body rsp = ReplyBody reply \<longrightarrow>
     (reply = [] \<or> (\<not> is_whitespace (hd reply) \<and> \<not> is_whitespace (last reply))) \<and>
     \<not> contains reply fence \<and> \<not> contains reply fence_json"
proof
  assume a: "chat_handler sv req s = Some (rsp, s') \<and> body rsp = ReplyBody reply"
  then have run: "chat_handler sv req s = Some (rsp, s')" and body: "body rsp = ReplyBody reply"
    by blast+
  from run have "\<exists>t. reply = cleanedReply t"
  proof (cases rule: chat_handler_cases)
    case bad
    with body show ?thesis by (simp add: bad_request_chat_def)
  next
    case (error e)
    with body show ?thesis by (simp add: internal_error_def)
  next
    case (reply cleaned)
    with body have "reply = cleaned" by (simp add: ok_def)
    with chat_try_reply [OF reply(3)] show ?thesis by simp
  qed
  then obtain t where "reply = cleanedReply t" ..
  then show "(reply = [] \<or> (\<not> is_whitespace (hd reply) \<and> \<not> is_whitespace (last reply))) \<and>
     \<not> contains reply fence \<and> \<not> contains reply fence_json"
    using cleanedReply_clean [of t] by simp
qed

theorem reply_is_clean_witness:
  "chat_handler mock \<lparr> body_message = Some (js ''net worth?''), body_sessionId = Some (js ''s4'') \<rparr>
     empty_server =
     Some (\<lparr> status = 200, body = ReplyBody (js ''{}'') \<rparr>,
           \<lparr> chatSessions =
               [js ''s4'' \<mapsto>
                  [SystemInstruction, UserText (js ''net worth?''),
                   ModelContent (wants [js ''fetch_net_worth'', js ''fetch_credit_report'']),
                   FunctionResponses
                     [\<lparr> fr_name = js ''fetch_net_worth'', fr_response = tool_response netWorth_text \<rparr>,
                      \<lparr> fr_name = js ''fetch_credit_report'', fr_response = tool_response creditReport_text \<rparr>],
                   ModelContent (says (fence_json @ js ''{}'' @ [0x000A] @ fence @ [0x000A]))]],
             log =
               [ModelCall [SystemInstruction, UserText (js ''net worth?'')],
                RelayCall (tool_request (js ''s4'') (js ''fetch_net_worth'')),
                RelayCall (tool_request (js ''s4'') (js ''fetch_credit_report'')),
                ModelCall
                  [SystemInstruction, UserText (js ''net worth?''),
                   ModelContent (wants [js ''fetch_net_worth'', js ''fetch_credit_report'']),
                   FunctionResponses
                     [\<lparr> fr_name = js ''fetch_net_worth'', fr_response = tool_response netWorth_text \<rparr>,
                      \<lparr> fr_name = js ''fetch_credit_report'', fr_response = tool_response creditReport_text \<rparr>]]] \<rparr>) \<and>
   \<not> contains (js ''{}'') fence \<and> \<not> contains (js ''{}'') fence_json"
proof -
  let ?req = "\<lparr> body_message = Some (js ''net worth?''), body_sessionId = Some (js ''s4'') \<rparr>"
  let ?rsp = "\<lparr> status = 200, body = ReplyBody (js ''{}'') \<rparr>"
  let ?frs = "[\<lparr> fr_name = js ''fetch_net_worth'', fr_response = tool_response netWorth_text \<rparr>,
               \<lparr> fr_name = js ''fetch_credit_report'', fr_response = tool_response creditReport_text \<rparr>]"
  let ?s' = "\<lparr> chatSessions =
               [js ''s4'' \<mapsto>
                  [SystemInstruction, UserText (js ''net worth?''),
                   ModelContent (wants [js ''fetch_net_worth'', js ''fetch_credit_report'']),
                   FunctionResponses ?frs,
                   ModelContent (says (fence_json @ js ''{}'' @ [0x000A] @ fence @ [0x000A]))]],
             log =
               [ModelCall [SystemInstruction, UserText (js ''net worth?'')],
                RelayCall (tool_request (js ''s4'') (js ''fetch_net_worth'')),
                RelayCall (tool_request (js ''s4'') (js ''fetch_credit_report'')),
                ModelCall
                  [SystemInstruction, UserText (js ''net worth?''),
                   ModelContent (wants [js ''fetch_net_worth'', js ''fetch_credit_report'']),
                   FunctionResponses ?frs]] \<rparr>"
  have run: "chat_handler mock ?req empty_server = Some (?rsp, ?s')"
    by (simp add: mock_defs string_defs chat_defs reasoning_loop.simps Let_def)
  have "\<not> contains (js ''{}'') fence \<and> \<not> contains (js ''{}'') fence_json"
    using reply_is_clean
      [where sv = mock and req = ?req and s = empty_server and rsp = ?rsp and s' = ?s'
         and reply = "js ''{}''"]
      run
    by simp
  with run show ?thesis by simp
qed

subsection \<open>The dashboard handler, step by step\<close>

lemma bindE_Inl [simp]: "bindE (Inl e) f = Inl e"
  by (simp add: bindE_def)

lemma bindE_Inr [simp]: "bindE (Inr x) f = f x"
  by (simp add: bindE_def)

lemma bindE_throws:
  assumes "m = Inl e"
  shows "\<exists>e'. bindE m f = Inl e'"
  using assms by simp

lemma bindE_passes_throw:
  assumes "\<And>x. \<exists>e'. f x = Inl e'"
  shows "\<exists>e'. bindE m f = Inl e'"
  using assms by (cases m) simp_all

lemma dashboard_handler_eq:
  assumes "\<not> falsy (query_sessionId q)" and "sid = string_of (query_sessionId q)"
    and "r0 = tool_request sid (js ''fetch_net_worth'')"
    and "r1 = tool_request sid (js ''fetch_credit_report'')"
  shows "dashboard_handler sv q s =
     (case bindE (promise_all [post sv (log s) r0, post sv (log s @ [RelayCall r0]) r1])
             (dashboard_data sv) of
        Inl e \<Rightarrow> (dashboard_failed, s\<lparr> log := log s @ [RelayCall r0, RelayCall r1] \<rparr>)
      | Inr dashboardData \<Rightarrow>
          (ok (DashboardBody dashboardData), s\<lparr> log := log s @ [RelayCall r0, RelayCall r1] \<rparr>))"
  unfolding assms(2,3,4) using assms(1)
  by (simp add: dashboard_handler_def toolsToFetch_def Let_def)

lemma tool_result_eq:
  assumes "i < length toolResponses"
    and "path (toolResponses ! i)
           [Prop (js ''result''), Prop (js ''content''), Index 0, Prop (js ''text'')] = Inr (JStr t)"
  shows "tool_result sv toolResponses i = JSON_parse sv t"
  using assms by (simp add: tool_result_def response_data_def)

lemma entry_fields_SomeD:
  assumes "entry_fields item = Some (a, n)"
  shows "path item [Prop (js ''netWorthAttribute'')] = Inr (JStr a)"
    and "\<exists>u. path item [Prop (js ''value''), Prop (js ''units'')] = Inr u \<and> parseInt u = Inr n"
  using assms unfolding entry_fields_def
  by (auto simp del: path.simps simp: bindE_def split: sum.splits jsval.splits)

lemma filterE_is_asset:
  assumes "map entry_fields items = map Some entries"
  shows "filterE is_asset items =
     Inr (filter (\<lambda>item. case entry_fields item of
                             None \<Rightarrow> False
                           | Some (a, n) \<Rightarrow> \<not> startsWith a (js ''LIABILITY_TYPE'')) items)"
  using assms
proof (induction items arbitrary: entries)
  case Nil
  then show ?case by simp
next
  case (Cons item items)
  then obtain a n rest where entries: "entries = (a, n) # rest"
    and item: "entry_fields item = Some (a, n)" and tl: "map entry_fields items = map Some rest"
    by (cases entries) auto
  from entry_fields_SomeD(1) [OF item]
  have "is_asset item = Inr (\<not> startsWith a (js ''LIABILITY_TYPE''))"
    by (simp del: path.simps add: is_asset_def)
  with Cons.IH [OF tl] item show ?case by simp
qed

lemma mapE_asset_of:
  assumes "map entry_fields items = map Some entries"
  shows "mapE asset_of
           (filter (\<lambda>item. case entry_fields item of
                              None \<Rightarrow> False
                            | Some (a, n) \<Rightarrow> \<not> startsWith a (js ''LIABILITY_TYPE'')) items) =
     Inr (map (\<lambda>(a, n). \<lparr> asset_type = asset_label a, asset_value = n \<rparr>)
            (filter (\<lambda>(a, n). \<not> startsWith a (js ''LIABILITY_TYPE'')) entries))"
  using assms
proof (induction items arbitrary: entries)
  case Nil
  then show ?case by simp
next
  case (Cons item items)
  then obtain a n rest where entries: "entries = (a, n) # rest"
    and item: "entry_fields item = Some (a, n)" and tl: "map entry_fields items = map Some rest"
    by (cases entries) auto
  from entry_fields_SomeD [OF item]
  have "asset_of item = Inr \<lparr> asset_type = asset_label a, asset_value = n \<rparr>"
    by (auto simp del: path.simps simp: asset_of_def)
  with Cons.IH [OF tl] item entries show ?case by simp
qed

lemma dashboard_shape_well_formed:
  assumes "path netWorthRaw
             [Prop (js ''netWorthResponse''), Prop (js ''totalNetWorthValue''), Prop (js ''units'')] = Inr u"
    and "parseInt u = Inr worth"
    and "path netWorthRaw [Prop (js ''netWorthResponse''), Prop (js ''assetValues'')] = Inr (JArr items)"
    and "map entry_fields items = map Some entries"
    and "path creditReportRaw
           [Prop (js ''creditReports''), Index 0, Prop (js ''creditReportData''),
            Prop (js ''score''), Prop (js ''bureauScore'')] = Inr b"
    and "parseInt b = Inr score"
  shows "dashboard_shape netWorthRaw creditReportRaw =
     Inr \<lparr> netWorth = worth,
           assets = map (\<lambda>(a, n). \<lparr> asset_type = asset_label a, asset_value = n \<rparr>)
                      (filter (\<lambda>(a, n). \<not> startsWith a (js ''LIABILITY_TYPE'')) entries),
           creditScore = score \<rparr>"
  unfolding dashboard_shape_def
  by (simp only: assms(1,2,3,5,6) bindE_Inr as_array.simps
      filterE_is_asset [OF assms(4)] mapE_asset_of [OF assms(4)])

lemma asset_label_prefixed:
  "asset_label (js ''ASSET_TYPE_'' @ rest) = replace rest (js ''_'') (js '' '')"
  by (simp add: asset_label_def js_def)

subsection \<open>The dashboard of well-formed tool results\<close>

text \<open>
  C2, as the code has it. A dashboard request with a session identifier issues two relay
  calls, \<^verbatim>\<open>fetch_net_worth\<close> and then \<^verbatim>\<open>fetch_credit_report\<close>, both before either answer is
  looked at. When both answers are well formed, the response is status 200 with the net
  worth, the assets and the credit score: the net worth and the score are the integers
  \<^verbatim>\<open>parseInt\<close> reads from their fields; the assets are the entries whose type tag does not
  start with \<^verbatim>\<open>LIABILITY_TYPE\<close>, in their order, each with the integer read from its units
  and with its label. The label is the type tag with the first \<^verbatim>\<open>ASSET_TYPE_\<close> removed and
  then the first underscore replaced by a space: for a tag \<^verbatim>\<open>ASSET_TYPE_\<close>\<open>rest\<close> it is \<open>rest\<close>
  with its first underscore replaced by a space.
\<close>

theorem dashboard_of_well_formed_results:
  "(\<not> falsy (query_sessionId q) \<and> sessionId = string_of (query_sessionId q) \<longrightarrow>
      log (snd (dashboard_handler sv q s)) =
        log s @ [RelayCall (tool_request sessionId (js ''fetch_net_worth'')),
                 RelayCall (tool_request sessionId (js ''fetch_credit_report''))]) \<and>
   (\<not> falsy (query_sessionId q) \<and> sessionId = string_of (query_sessionId q) \<and>
    post sv (log s) (tool_request sessionId (js ''fetch_net_worth'')) = Inr netWorthData \<and>
    post sv (log s @ [RelayCall (tool_request sessionId (js ''fetch_net_worth''))])
      (tool_request sessionId (js ''fetch_credit_report'')) = Inr creditData \<and>
    path netWorthData [Prop (js ''result''), Prop (js ''content''), Index 0, Prop (js ''text'')] = Inr (JStr netWorthText) \<and>
    path creditData [Prop (js ''result''), Prop (js ''content''), Index 0, Prop (js ''text'')] = Inr (JStr creditText) \<and>
    JSON_parse sv netWorthText = Inr netWorthRaw \<and> JSON_parse sv creditText = Inr creditReportRaw \<and>
    path netWorthRaw
      [Prop (js ''netWorthResponse''), Prop (js ''totalNetWorthValue''), Prop (js ''units'')] = Inr u \<and>
    parseInt u = Inr worth \<and>
    path netWorthRaw [Prop (js ''netWorthResponse''), Prop (js ''assetValues'')] = Inr (JArr items) \<and>
    map entry_fields items = map Some entries \<and>
    path creditReportRaw
      [Prop (js ''creditReports''), Index 0, Prop (js ''creditReportData''),
       Prop (js ''score''), Prop (js ''bureauScore'')] = Inr b \<and>
    parseInt b = Inr score \<longrightarrow>
      fst (dashboard_handler sv q s) =
        \<lparr> status = 200,
          body = DashboardBody
            \<lparr> netWorth = worth,
              assets = map (\<lambda>(a, n). \<lparr> asset_type = asset_label a, asset_value = n \<rparr>)
                         (filter (\<lambda>(a, n). \<not> startsWith a (js ''LIABILITY_TYPE'')) entries),
              creditScore = score \<rparr> \<rparr>) \<and>
   asset_label (js ''ASSET_TYPE_'' @ rest) = replace rest (js ''_'') (js '' '')"
proof (intro conjI impI)
  show "asset_label (js ''ASSET_TYPE_'' @ rest) = replace rest (js ''_'') (js '' '')"
    by (rule asset_label_prefixed)
next
  assume "\<not> falsy (query_sessionId q) \<and> sessionId = string_of (query_sessionId q)"
  then show "log (snd (dashboard_handler sv q s)) =
        log s @ [RelayCall (tool_request sessionId (js ''fetch_net_worth'')),
                 RelayCall (tool_request sessionId (js ''fetch_credit_report''))]"
    by (simp add: dashboard_handler_eq [OF _ _ refl refl] split: sum.splits)
next
  let ?r0 = "tool_request sessionId (js ''fetch_net_worth'')"
  let ?r1 = "tool_request sessionId (js ''fetch_credit_report'')"
  let ?P = "[Prop (js ''result''), Prop (js ''content''), Index 0, Prop (js ''text'')]"
  assume a: "\<not> falsy (query_sessionId q) \<and> sessionId = string_of (query_sessionId q) \<and>
    post sv (log s) ?r0 = Inr netWorthData \<and>
    post sv (log s @ [RelayCall ?r0]) ?r1 = Inr creditData \<and>
    path netWorthData ?P = Inr (JStr netWorthText) \<and>
    path creditData ?P = Inr (JStr creditText) \<and>
    JSON_parse sv netWorthText = Inr netWorthRaw \<and> JSON_parse sv creditText = Inr creditReportRaw \<and>
    path netWorthRaw
      [Prop (js ''netWorthResponse''), Prop (js ''totalNetWorthValue''), Prop (js ''units'')] = Inr u \<and>
    parseInt u = Inr worth \<and>
    path netWorthRaw [Prop (js ''netWorthResponse''), Prop (js ''assetValues'')] = Inr (JArr items) \<and>
    map entry_fields items = map Some entries \<and>
    path creditReportRaw
      [Prop (js ''creditReports''), Index 0, Prop (js ''creditReportData''),
       Prop (js ''score''), Prop (js ''bureauScore'')] = Inr b \<and>
    parseInt b = Inr score"
  then have valid: "\<not> falsy (query_sessionId q)" and sid: "sessionId = string_of (query_sessionId q)"
    and p0: "post sv (log s) ?r0 = Inr netWorthData"
    and p1: "post sv (log s @ [RelayCall ?r0]) ?r1 = Inr creditData"
    and t0: "path netWorthData ?P = Inr (JStr netWorthText)" and t1: "path creditData ?P = Inr (JStr creditText)"
    and j0: "JSON_parse sv netWorthText = Inr netWorthRaw" and j1: "JSON_parse sv creditText = Inr creditReportRaw"
    by blast+
  from a have shape: "dashboard_shape netWorthRaw creditReportRaw =
     Inr \<lparr> netWorth = worth,
           assets = map (\<lambda>(a, n). \<lparr> asset_type = asset_label a, asset_value = n \<rparr>)
                      (filter (\<lambda>(a, n). \<not> startsWith a (js ''LIABILITY_TYPE'')) entries),
           creditScore = score \<rparr>"
    by (intro dashboard_shape_well_formed) blast+
  have r0: "tool_result sv [netWorthData, creditData] 0 = Inr netWorthRaw"
    using tool_result_eq [of 0 "[netWorthData, creditData]" netWorthText sv] t0 j0 by simp
  have r1: "tool_result sv [netWorthData, creditData] 1 = Inr creditReportRaw"
    using tool_result_eq [of 1 "[netWorthData, creditData]" creditText sv] t1 j1 by simp
  have "dashboard_data sv [netWorthData, creditData] =
     Inr \<lparr> netWorth = worth,
           assets = map (\<lambda>(a, n). \<lparr> asset_type = asset_label a, asset_value = n \<rparr>)
                      (filter (\<lambda>(a, n). \<not> startsWith a (js ''LIABILITY_TYPE'')) entries),
           creditScore = score \<rparr>"
    by (simp only: dashboard_data_def r0 r1 bindE_Inr shape)
  then show "fst (dashboard_handler sv q s) =
        \<lparr> status = 200,
          body = DashboardBody
            \<lparr> netWorth = worth,
              assets = map (\<lambda>(a, n). \<lparr> asset_type = asset_label a, asset_value = n \<rparr>)
                         (filter (\<lambda>(a, n). \<not> startsWith a (js ''LIABILITY_TYPE'')) entries),
              creditScore = score \<rparr> \<rparr>"
    by (simp add: dashboard_handler_eq [OF valid sid refl refl] p0 p1 ok_def)
qed

theorem dashboard_of_well_formed_results_witness:
  "dashboard_handler mock \<lparr> query_sessionId = Some (js ''s1'') \<rparr> empty_server =
     (\<lparr> status = 200,
        body = DashboardBody
          \<lparr> netWorth = Num 658305,
            assets = [\<lparr> asset_type = js ''MUTUAL FUND'', asset_value = Num 84613 \<rparr>],
            creditScore = Num 746 \<rparr> \<rparr>,
      \<lparr> chatSessions = Map.empty,
        log = [RelayCall (tool_request (js ''s1'') (js ''fetch_net_worth'')),
               RelayCall (tool_request (js ''s1'') (js ''fetch_credit_report''))] \<rparr>)"
proof -
  let ?q = "\<lparr> query_sessionId = Some (js ''s1'') \<rparr>"
  let ?items = "[JObj [(js ''netWorthAttribute'', JStr (js ''ASSET_TYPE_MUTUAL_FUND'')),
                       (js ''value'', JObj [(js ''units'', JStr (js ''84613''))])],
                 JObj [(js ''netWorthAttribute'', JStr (js ''LIABILITY_TYPE_HOME_LOAN'')),
                       (js ''value'', JObj [(js ''units'', JStr (js ''5000''))])]]"
  let ?entries = "[(js ''ASSET_TYPE_MUTUAL_FUND'', Num 84613), (js ''LIABILITY_TYPE_HOME_LOAN'', Num 5000)]"
  have entries: "map entry_fields ?items = map Some ?entries"
    by (simp add: entry_fields_def parseInt_def parseInt_string_def is_digit_def digit_value_def
        digits_value_def js_def is_whitespace_def)
  have n1: "parseInt (JStr (js ''658305'')) = Inr (Num 658305)"
    by (simp add: parseInt_def parseInt_string_def is_digit_def digit_value_def
        digits_value_def js_def is_whitespace_def)
  have n2: "parseInt (JStr (js ''746'')) = Inr (Num 746)"
    by (simp add: parseInt_def parseInt_string_def is_digit_def digit_value_def
        digits_value_def js_def is_whitespace_def)
  have label: "asset_label (js ''ASSET_TYPE_MUTUAL_FUND'') = js ''MUTUAL FUND''"
    by (simp add: asset_label_def js_def)
  have paths:
    "path (tool_response netWorth_text)
       [Prop (js ''result''), Prop (js ''content''), Index 0, Prop (js ''text'')] = Inr (JStr netWorth_text)"
    "path (tool_response creditReport_text)
       [Prop (js ''result''), Prop (js ''content''), Index 0, Prop (js ''text'')] = Inr (JStr creditReport_text)"
    "path netWorth_parsed
       [Prop (js ''netWorthResponse''), Prop (js ''totalNetWorthValue''), Prop (js ''units'')] =
       Inr (JStr (js ''658305''))"
    "path netWorth_parsed [Prop (js ''netWorthResponse''), Prop (js ''assetValues'')] = Inr (JArr ?items)"
    "path creditReport_parsed
       [Prop (js ''creditReports''), Index 0, Prop (js ''creditReportData''),
        Prop (js ''score''), Prop (js ''bureauScore'')] = Inr (JStr (js ''746''))"
    by (simp_all add: tool_response_def netWorth_parsed_def creditReport_parsed_def js_def)
  have parsed: "JSON_parse mock netWorth_text = Inr netWorth_parsed"
    "JSON_parse mock creditReport_text = Inr creditReport_parsed"
    by (simp_all add: mock_defs js_def)
  have posts:
    "post mock (log empty_server) (tool_request (js ''s1'') (js ''fetch_net_worth'')) =
       Inr (tool_response netWorth_text)"
    "post mock (log empty_server @ [RelayCall (tool_request (js ''s1'') (js ''fetch_net_worth''))])
       (tool_request (js ''s1'') (js ''fetch_credit_report'')) = Inr (tool_response creditReport_text)"
    by (simp_all add: mock_def mock_post_def tool_request_def js_def)
  note inst = dashboard_of_well_formed_results
      [where q = ?q and sessionId = "js ''s1''" and sv = mock and s = empty_server
         and netWorthData = "tool_response netWorth_text" and creditData = "tool_response creditReport_text"
         and netWorthText = netWorth_text and creditText = creditReport_text
         and netWorthRaw = netWorth_parsed and creditReportRaw = creditReport_parsed
         and u = "JStr (js ''658305'')" and worth = "Num 658305" and items = ?items
         and entries = ?entries and b = "JStr (js ''746'')" and score = "Num 746"]
  have valid: "\<not> falsy (query_sessionId ?q) \<and> js ''s1'' = string_of (query_sessionId ?q)"
    by (simp add: js_def)
  from inst valid have lg: "log (snd (dashboard_handler mock ?q empty_server)) =
        log empty_server @ [RelayCall (tool_request (js ''s1'') (js ''fetch_net_worth'')),
                 RelayCall (tool_request (js ''s1'') (js ''fetch_credit_report''))]"
    by blast
  from inst valid posts paths parsed n1 n2 entries
  have rsp: "fst (dashboard_handler mock ?q empty_server) =
        \<lparr> status = 200,
          body = DashboardBody
            \<lparr> netWorth = Num 658305,
              assets = map (\<lambda>(a, n). \<lparr> asset_type = asset_label a, asset_value = n \<rparr>)
                         (filter (\<lambda>(a, n). \<not> startsWith a (js ''LIABILITY_TYPE'')) ?entries),
              creditScore = Num 746 \<rparr> \<rparr>"
    by blast
  have "filter (\<lambda>(a, n). \<not> startsWith a (js ''LIABILITY_TYPE'')) ?entries =
      [(js ''ASSET_TYPE_MUTUAL_FUND'', Num 84613)]"
    by (simp add: js_def)
  with rsp label have rsp': "fst (dashboard_handler mock ?q empty_server) =
        \<lparr> status = 200,
          body = DashboardBody
            \<lparr> netWorth = Num 658305,
              assets = [\<lparr> asset_type = js ''MUTUAL FUND'', asset_value = Num 84613 \<rparr>],
              creditScore = Num 746 \<rparr> \<rparr>"
    by simp
  have reg: "chatSessions (snd (dashboard_handler mock ?q empty_server)) = Map.empty"
    by (simp add: dashboard_handler_def Let_def split_beta empty_server_def split: sum.splits)
  show ?thesis
    using rsp' lg reg
    by (cases "dashboard_handler mock ?q empty_server"; cases "snd (dashboard_handler mock ?q empty_server)")
       (simp add: empty_server_def)
qed

text \<open>
  The claim as the spec states it, the label being the type tag without its prefix, fails
  on the mock's asset \<^verbatim>\<open>ASSET_TYPE_MUTUAL_FUND\<close>: the tag without the prefix is
  \<^verbatim>\<open>MUTUAL_FUND\<close>, the label in the response is \<^verbatim>\<open>MUTUAL FUND\<close>.
\<close>

theorem label_is_not_the_bare_tag:
  "fst (dashboard_handler mock \<lparr> query_sessionId = Some (js ''s1'') \<rparr> empty_server) =
     \<lparr> status = 200,
       body = DashboardBody
         \<lparr> netWorth = Num 658305,
           assets = [\<lparr> asset_type = js ''MUTUAL FUND'', asset_value = Num 84613 \<rparr>],
           creditScore = Num 746 \<rparr> \<rparr> \<and>
   drop (length (js ''ASSET_TYPE_'')) (js ''ASSET_TYPE_MUTUAL_FUND'') = js ''MUTUAL_FUND'' \<and>
   js ''MUTUAL FUND'' \<noteq> js ''MUTUAL_FUND''"
  by (simp add: mock_defs dashboard_defs js_def is_whitespace_def Let_def)

subsection \<open>Well-formed relay calls\<close>

lemma dashboard_handler_log:
  "\<exists>evs. log (snd (dashboard_handler sv q s)) = log s @ evs \<and>
         list_all (relay_well_formed (string_of (query_sessionId q))) evs"
proof (cases "falsy (query_sessionId q)")
  case True
  then have "log (snd (dashboard_handler sv q s)) = log s @ []"
    by (simp add: dashboard_handler_def Let_def)
  then show ?thesis by (intro exI [of _ "[]"]) simp
next
  case False
  let ?sid = "string_of (query_sessionId q)"
  let ?evs = "[RelayCall (tool_request ?sid (js ''fetch_net_worth'')),
               RelayCall (tool_request ?sid (js ''fetch_credit_report''))]"
  have "log (snd (dashboard_handler sv q s)) = log s @ ?evs"
    by (simp add: dashboard_handler_eq [OF False refl refl refl] split: sum.splits)
  moreover have "list_all (relay_well_formed ?sid) ?evs"
    by (simp add: tool_request_well_formed)
  ultimately show ?thesis by blast
qed

lemma chat_handler_log:
  assumes "chat_handler sv req s = Some (rsp, s')"
  shows "\<exists>evs. log s' = log s @ evs \<and>
         list_all (relay_well_formed (string_of (body_sessionId req))) evs"
proof -
  have tried: "\<exists>evs. log s' = log s @ evs \<and>
         list_all (relay_well_formed (string_of (body_sessionId req))) evs"
    if "chat_try sv (string_of (body_message req)) (string_of (body_sessionId req)) s = Some (r, s')"
    for r
  proof -
    from chat_try_effects [OF that refl]
    obtain c evs where "log s' = log s @ ModelCall c # evs"
      and "list_all (relay_well_formed (string_of (body_sessionId req))) evs"
      by blast
    then have "log s' = log s @ (ModelCall c # evs)"
      and "list_all (relay_well_formed (string_of (body_sessionId req))) (ModelCall c # evs)"
      by (simp_all add: relay_well_formed_def)
    then show ?thesis by blast
  qed
  from assms show ?thesis
  proof (cases rule: chat_handler_cases)
    case bad
    then have "log s' = log s @ []" by simp
    then show ?thesis by (intro exI [of _ "[]"]) simp
  next
    case (error e)
    then show ?thesis using tried by blast
  next
    case (reply cleaned)
    then show ?thesis using tried by blast
  qed
qed

text \<open>
  C7. Every relay call of either endpoint goes to the one endpoint of the tool server as
  a JSON-RPC 2.0 request with the method \<^verbatim>\<open>tools/call\<close>, the name of the tool and an empty
  \<^verbatim>\<open>arguments\<close> object, whatever arguments the model has attached to its invocation, and
  with the session identifier of the request in the \<^verbatim>\<open>Mcp-Session-Id\<close> header. The dashboard
  takes the result of a tool from the string at \<^verbatim>\<open>result.content[0].text\<close> of the response,
  which it hands to \<^verbatim>\<open>JSON.parse\<close>; nothing else of a response enters the dashboard data.
\<close>

theorem relay_calls_are_well_formed:
  "(chat_handler sv req s = Some (rsp, s') \<longrightarrow>
      (\<exists>evs. log s' = log s @ evs \<and>
             list_all (relay_well_formed (string_of (body_sessionId req))) evs)) \<and>
   (\<exists>evs. log (snd (dashboard_handler sv q s)) = log s @ evs \<and>
          list_all (relay_well_formed (string_of (query_sessionId q))) evs) \<and>
   params_name (tool_request sessionId (fc_name functionCall)) = fc_name functionCall \<and>
   params_arguments (tool_request sessionId (fc_name functionCall)) = JObj [] \<and>
   (\<not> falsy (query_sessionId q) \<and> sessionId = string_of (query_sessionId q) \<and>
    post sv (log s) (tool_request sessionId (js ''fetch_net_worth'')) = Inr netWorthData \<and>
    post sv (log s @ [RelayCall (tool_request sessionId (js ''fetch_net_worth''))])
      (tool_request sessionId (js ''fetch_credit_report'')) = Inr creditData \<and>
    path netWorthData [Prop (js ''result''), Prop (js ''content''), Index 0, Prop (js ''text'')] =
      Inr (JStr netWorthText) \<and>
    path creditData [Prop (js ''result''), Prop (js ''content''), Index 0, Prop (js ''text'')] =
      Inr (JStr creditText) \<longrightarrow>
      fst (dashboard_handler sv q s) =
        (case bindE (JSON_parse sv netWorthText) (\<lambda>netWorthRaw.
              bindE (JSON_parse sv creditText) (\<lambda>creditReportRaw.
              dashboard_shape netWorthRaw creditReportRaw)) of
           Inl e \<Rightarrow> \<lparr> status = 500, body = ErrorBody (js ''Failed to fetch dashboard data.'') \<rparr>
         | Inr dashboardData \<Rightarrow> \<lparr> status = 200, body = DashboardBody dashboardData \<rparr>))"
proof (intro conjI impI)
  assume "chat_handler sv req s = Some (rsp, s')"
  then show "\<exists>evs. log s' = log s @ evs \<and>
             list_all (relay_well_formed (string_of (body_sessionId req))) evs"
    by (rule chat_handler_log)
next
  show "\<exists>evs. log (snd (dashboard_handler sv q s)) = log s @ evs \<and>
          list_all (relay_well_formed (string_of (query_sessionId q))) evs"
    by (rule dashboard_handler_log)
next
  show "params_name (tool_request sessionId (fc_name functionCall)) = fc_name functionCall"
    and "params_arguments (tool_request sessionId (fc_name functionCall)) = JObj []"
    by (simp_all add: tool_request_def)
next
  let ?r0 = "tool_request sessionId (js ''fetch_net_worth'')"
  let ?r1 = "tool_request sessionId (js ''fetch_credit_report'')"
  let ?P = "[Prop (js ''result''), Prop (js ''content''), Index 0, Prop (js ''text'')]"
  assume a: "\<not> falsy (query_sessionId q) \<and> sessionId = string_of (query_sessionId q) \<and>
    post sv (log s) ?r0 = Inr netWorthData \<and>
    post sv (log s @ [RelayCall ?r0]) ?r1 = Inr creditData \<and>
    path netWorthData ?P = Inr (JStr netWorthText) \<and>
    path creditData ?P = Inr (JStr creditText)"
  then have valid: "\<not> falsy (query_sessionId q)" and sid: "sessionId = string_of (query_sessionId q)"
    and p0: "post sv (log s) ?r0 = Inr netWorthData"
    and p1: "post sv (log s @ [RelayCall ?r0]) ?r1 = Inr creditData"
    and t0: "path netWorthData ?P = Inr (JStr netWorthText)"
    and t1: "path creditData ?P = Inr (JStr creditText)"
    by blast+
  have r0: "tool_result sv [netWorthData, creditData] 0 = JSON_parse sv netWorthText"
    using tool_result_eq [of 0 "[netWorthData, creditData]" netWorthText sv] t0 by simp
  have r1: "tool_result sv [netWorthData, creditData] 1 = JSON_parse sv creditText"
    using tool_result_eq [of 1 "[netWorthData, creditData]" creditText sv] t1 by simp
  have "dashboard_data sv [netWorthData, creditData] =
      bindE (JSON_parse sv netWorthText) (\<lambda>netWorthRaw.
      bindE (JSON_parse sv creditText) (\<lambda>creditReportRaw.
      dashboard_shape netWorthRaw creditReportRaw))"
    by (simp only: dashboard_data_def r0 r1)
  then show "fst (dashboard_handler sv q s) =
        (case bindE (JSON_parse sv netWorthText) (\<lambda>netWorthRaw.
              bindE (JSON_parse sv creditText) (\<lambda>creditReportRaw.
              dashboard_shape netWorthRaw creditReportRaw)) of
           Inl e \<Rightarrow> \<lparr> status = 500, body = ErrorBody (js ''Failed to fetch dashboard data.'') \<rparr>
         | Inr dashboardData \<Rightarrow> \<lparr> status = 200, body = DashboardBody dashboardData \<rparr>)"
    by (simp add: dashboard_handler_eq [OF valid sid refl refl] p0 p1 ok_def dashboard_failed_def
        split: sum.splits)
qed

theorem relay_calls_are_well_formed_witness:
  "map_option (log \<circ> snd)
     (chat_handler mock \<lparr> body_message = Some (js ''net worth?''), body_sessionId = Some (js ''s5'') \<rparr>
        empty_server) =
     Some
       [ModelCall [SystemInstruction, UserText (js ''net worth?'')],
        RelayCall (tool_request (js ''s5'') (js ''fetch_net_worth'')),
        RelayCall (tool_request (js ''s5'') (js ''fetch_credit_report'')),
        ModelCall
          [SystemInstruction, UserText (js ''net worth?''),
           ModelContent (wants [js ''fetch_net_worth'', js ''fetch_credit_report'']),
           FunctionResponses
             [\<lparr> fr_name = js ''fetch_net_worth'', fr_response = tool_response netWorth_text \<rparr>,
              \<lparr> fr_name = js ''fetch_credit_report'', fr_response = tool_response creditReport_text \<rparr>]]] \<and>
   list_all (relay_well_formed (js ''s5''))
     [ModelCall [SystemInstruction, UserText (js ''net worth?'')],
      RelayCall (tool_request (js ''s5'') (js ''fetch_net_worth'')),
      RelayCall (tool_request (js ''s5'') (js ''fetch_credit_report'')),
      ModelCall
        [SystemInstruction, UserText (js ''net worth?''),
         ModelContent (wants [js ''fetch_net_worth'', js ''fetch_credit_report'']),
         FunctionResponses
           [\<lparr> fr_name = js ''fetch_net_worth'', fr_response = tool_response netWorth_text \<rparr>,
            \<lparr> fr_name = js ''fetch_credit_report'', fr_response = tool_response creditReport_text \<rparr>]]] \<and>
   fst (dashboard_handler mock \<lparr> query_sessionId = Some (js ''s5'') \<rparr> empty_server) =
     (case bindE (JSON_parse mock netWorth_text) (\<lambda>netWorthRaw.
           bindE (JSON_parse mock creditReport_text) (\<lambda>creditReportRaw.
           dashboard_shape netWorthRaw creditReportRaw)) of
        Inl e \<Rightarrow> \<lparr> status = 500, body = ErrorBody (js ''Failed to fetch dashboard data.'') \<rparr>
      | Inr dashboardData \<Rightarrow> \<lparr> status = 200, body = DashboardBody dashboardData \<rparr>)"
proof -
  let ?req = "\<lparr> body_message = Some (js ''net worth?''), body_sessionId = Some (js ''s5'') \<rparr>"
  let ?q = "\<lparr> query_sessionId = Some (js ''s5'') \<rparr>"
  let ?rsp = "\<lparr> status = 200, body = ReplyBody (js ''{}'') \<rparr>"
  let ?frs = "[\<lparr> fr_name = js ''fetch_net_worth'', fr_response = tool_response netWorth_text \<rparr>,
               \<lparr> fr_name = js ''fetch_credit_report'', fr_response = tool_response creditReport_text \<rparr>]"
  let ?lg = "[ModelCall [SystemInstruction, UserText (js ''net worth?'')],
              RelayCall (tool_request (js ''s5'') (js ''fetch_net_worth'')),
              RelayCall (tool_request (js ''s5'') (js ''fetch_credit_report'')),
              ModelCall
                [SystemInstruction, UserText (js ''net worth?''),
                 ModelContent (wants [js ''fetch_net_worth'', js ''fetch_credit_report'']),
                 FunctionResponses ?frs]]"
  let ?s' = "\<lparr> chatSessions =
               [js ''s5'' \<mapsto>
                  [SystemInstruction, UserText (js ''net worth?''),
                   ModelContent (wants [js ''fetch_net_worth'', js ''fetch_credit_report'']),
                   FunctionResponses ?frs,
                   ModelContent (says (fence_json @ js ''{}'' @ [0x000A] @ fence @ [0x000A]))]],
             log = ?lg \<rparr>"
  note inst = relay_calls_are_well_formed
      [where sv = mock and req = ?req and s = empty_server and rsp = ?rsp and s' = ?s' and q = ?q
         and sessionId = "js ''s5''" and netWorthData = "tool_response netWorth_text"
         and creditData = "tool_response creditReport_text" and netWorthText = netWorth_text
         and creditText = creditReport_text]
  have run: "chat_handler mock ?req empty_server = Some (?rsp, ?s')"
    by (simp add: mock_defs string_defs chat_defs reasoning_loop.simps Let_def)
  with inst obtain evs where "log ?s' = log empty_server @ evs"
    and "list_all (relay_well_formed (string_of (body_sessionId ?req))) evs"
    by blast
  then have wf: "list_all (relay_well_formed (js ''s5'')) ?lg"
    by (simp add: empty_server_def)
  have pre: "\<not> falsy (query_sessionId ?q) \<and> js ''s5'' = string_of (query_sessionId ?q) \<and>
    post mock (log empty_server) (tool_request (js ''s5'') (js ''fetch_net_worth'')) =
      Inr (tool_response netWorth_text) \<and>
    post mock (log empty_server @ [RelayCall (tool_request (js ''s5'') (js ''fetch_net_worth''))])
      (tool_request (js ''s5'') (js ''fetch_credit_report'')) = Inr (tool_response creditReport_text) \<and>
    path (tool_response netWorth_text)
      [Prop (js ''result''), Prop (js ''content''), Index 0, Prop (js ''text'')] = Inr (JStr netWorth_text) \<and>
    path (tool_response creditReport_text)
      [Prop (js ''result''), Prop (js ''content''), Index 0, Prop (js ''text'')] = Inr (JStr creditReport_text)"
    by (simp add: mock_def mock_post_def tool_request_def tool_response_def js_def)
  with inst have "fst (dashboard_handler mock ?q empty_server) =
     (case bindE (JSON_parse mock netWorth_text) (\<lambda>netWorthRaw.
           bindE (JSON_parse mock creditReport_text) (\<lambda>creditReportRaw.
           dashboard_shape netWorthRaw creditReportRaw)) of
        Inl e \<Rightarrow> \<lparr> status = 500, body = ErrorBody (js ''Failed to fetch dashboard data.'') \<rparr>
      | Inr dashboardData \<Rightarrow> \<lparr> status = 200, body = DashboardBody dashboardData \<rparr>)"
    by blast
  with run wf show ?thesis by simp
qed

subsection \<open>Failures\<close>

lemma bindE_eq_Inr: "bindE m f = Inr y \<longleftrightarrow> (\<exists>x. m = Inr x \<and> f x = Inr y)"
  by (cases m) simp_all

lemma throws_or_returns: "(\<exists>e. m = Inl e) \<or> (\<exists>x. m = Inr x)"
  by (cases m) simp_all

lemma filterE_Inr_D:
  assumes "filterE f xs = Inr ys"
  shows "(\<forall>x \<in> set xs. \<exists>keep. f x = Inr keep) \<and> ys = filter (\<lambda>x. f x = Inr True) xs"
  using assms
proof (induction xs arbitrary: ys)
  case Nil
  then show ?case by simp
next
  case (Cons x xs)
  from Cons.prems obtain keep rest where "f x = Inr keep" and "filterE f xs = Inr rest"
    and "ys = (if keep then x # rest else rest)"
    by (auto simp: bindE_eq_Inr)
  with Cons.IH [of rest] show ?case by auto
qed

lemma mapE_Inr_D:
  assumes "mapE f xs = Inr ys"
  shows "\<forall>x \<in> set xs. \<exists>y. f x = Inr y"
  using assms
proof (induction xs arbitrary: ys)
  case Nil
  then show ?case by simp
next
  case (Cons x xs)
  from Cons.prems obtain y rest where "f x = Inr y" and "mapE f xs = Inr rest"
    by (auto simp: bindE_eq_Inr)
  with Cons.IH [of rest] show ?case by auto
qed

lemma path_append: "path v (ks @ ks') = bindE (path v ks) (\<lambda>w. path w ks')"
proof (induction ks arbitrary: v)
  case Nil
  then show ?case by simp
next
  case (Cons k ks)
  then show ?case by (cases "read v k") simp_all
qed

lemma path_through_missing:
  assumes "path v ks = Inr Undefined \<or> path v ks = Inr JNull"
  shows "path v (ks @ k # ks') = Inl TypeError"
  using assms by (cases k) (auto simp: path_append)

lemma dashboard_shape_Inr_D:
  assumes "dashboard_shape netWorthRaw creditReportRaw = Inr d"
  shows "\<exists>u n. path netWorthRaw
            [Prop (js ''netWorthResponse''), Prop (js ''totalNetWorthValue''), Prop (js ''units'')] = Inr u \<and>
            parseInt u = Inr n"
    and "\<exists>items. path netWorthRaw [Prop (js ''netWorthResponse''), Prop (js ''assetValues'')] = Inr (JArr items) \<and>
            (\<forall>item \<in> set items. \<exists>keep. is_asset item = Inr keep) \<and>
            (\<forall>item \<in> set items. is_asset item = Inr True \<longrightarrow> (\<exists>a. asset_of item = Inr a))"
    and "\<exists>b n. path creditReportRaw
            [Prop (js ''creditReports''), Index 0, Prop (js ''creditReportData''),
             Prop (js ''score''), Prop (js ''bureauScore'')] = Inr b \<and>
            parseInt b = Inr n"
proof -
  from assms obtain u n av items kept as b c where
    u: "path netWorthRaw
          [Prop (js ''netWorthResponse''), Prop (js ''totalNetWorthValue''), Prop (js ''units'')] = Inr u"
    and n: "parseInt u = Inr n"
    and av: "path netWorthRaw [Prop (js ''netWorthResponse''), Prop (js ''assetValues'')] = Inr av"
    and items: "as_array av = Inr items"
    and kept: "filterE is_asset items = Inr kept"
    and as: "mapE asset_of kept = Inr as"
    and b: "path creditReportRaw
          [Prop (js ''creditReports''), Index 0, Prop (js ''creditReportData''),
           Prop (js ''score''), Prop (js ''bureauScore'')] = Inr b"
    and c: "parseInt b = Inr c"
    unfolding dashboard_shape_def bindE_eq_Inr by blast
  from u n show "\<exists>u n. path netWorthRaw
            [Prop (js ''netWorthResponse''), Prop (js ''totalNetWorthValue''), Prop (js ''units'')] = Inr u \<and>
            parseInt u = Inr n"
    by blast
  from b c show "\<exists>b n. path creditReportRaw
            [Prop (js ''creditReports''), Index 0, Prop (js ''creditReportData''),
             Prop (js ''score''), Prop (js ''bureauScore'')] = Inr b \<and>
            parseInt b = Inr n"
    by blast
  from items have arr: "av = JArr items" by (cases av) simp_all
  from filterE_Inr_D [OF kept] have all: "\<forall>item \<in> set items. \<exists>keep. is_asset item = Inr keep"
    and keptis: "kept = filter (\<lambda>x. is_asset x = Inr True) items"
    by blast+
  from mapE_Inr_D [OF as] keptis
  have "\<forall>item \<in> set items. is_asset item = Inr True \<longrightarrow> (\<exists>a. asset_of item = Inr a)"
    by simp
  with av arr all
  show "\<exists>items. path netWorthRaw [Prop (js ''netWorthResponse''), Prop (js ''assetValues'')] = Inr (JArr items) \<and>
            (\<forall>item \<in> set items. \<exists>keep. is_asset item = Inr keep) \<and>
            (\<forall>item \<in> set items. is_asset item = Inr True \<longrightarrow> (\<exists>a. asset_of item = Inr a))"
    by blast
qed

lemma dashboard_shape_throws:
  assumes "path netWorthRaw
             [Prop (js ''netWorthResponse''), Prop (js ''totalNetWorthValue''), Prop (js ''units'')] = Inl e \<or>
           path netWorthRaw [Prop (js ''netWorthResponse''), Prop (js ''assetValues'')] = Inl e \<or>
           (\<exists>av. path netWorthRaw [Prop (js ''netWorthResponse''), Prop (js ''assetValues'')] = Inr av \<and>
                 as_array av = Inl e) \<or>
           (\<exists>items item.
              path netWorthRaw [Prop (js ''netWorthResponse''), Prop (js ''assetValues'')] = Inr (JArr items) \<and>
              item \<in> set items \<and>
              (is_asset item = Inl e \<or> (is_asset item = Inr True \<and> asset_of item = Inl e))) \<or>
           path creditReportRaw
             [Prop (js ''creditReports''), Index 0, Prop (js ''creditReportData''),
              Prop (js ''score''), Prop (js ''bureauScore'')] = Inl e"
  shows "\<exists>e'. dashboard_shape netWorthRaw creditReportRaw = Inl e'"
proof (rule ccontr)
  assume "\<nexists>e'. dashboard_shape netWorthRaw creditReportRaw = Inl e'"
  then obtain d where d: "dashboard_shape netWorthRaw creditReportRaw = Inr d"
    using throws_or_returns by blast
  note ok = dashboard_shape_Inr_D [OF d]
  from ok(2) obtain items where
    items: "path netWorthRaw [Prop (js ''netWorthResponse''), Prop (js ''assetValues'')] = Inr (JArr items)"
    and all: "\<forall>item \<in> set items. \<exists>keep. is_asset item = Inr keep"
    and kept: "\<forall>item \<in> set items. is_asset item = Inr True \<longrightarrow> (\<exists>a. asset_of item = Inr a)"
    by blast
  from assms consider
    "path netWorthRaw
       [Prop (js ''netWorthResponse''), Prop (js ''totalNetWorthValue''), Prop (js ''units'')] = Inl e"
  | "path netWorthRaw [Prop (js ''netWorthResponse''), Prop (js ''assetValues'')] = Inl e"
  | "as_array (JArr items) = Inl e"
  | item where "item \<in> set items" "is_asset item = Inl e"
  | item where "item \<in> set items" "is_asset item = Inr True" "asset_of item = Inl e"
  | "path creditReportRaw
       [Prop (js ''creditReports''), Index 0, Prop (js ''creditReportData''),
        Prop (js ''score''), Prop (js ''bureauScore'')] = Inl e"
    using items by auto
  then show False
  proof cases
    case 1
    with ok(1) show False by auto
  next
    case 2
    with items show False by simp
  next
    case 3
    then show False by simp
  next
    case (4 item)
    with all show False by auto
  next
    case (5 item)
    with kept show False by auto
  next
    case 6
    with ok(3) show False by auto
  qed
qed

lemma tool_result_throws:
  assumes "i < length toolResponses"
    and "path (toolResponses ! i)
           [Prop (js ''result''), Prop (js ''content''), Index 0, Prop (js ''text'')] = Inl e \<or>
         (path (toolResponses ! i)
            [Prop (js ''result''), Prop (js ''content''), Index 0, Prop (js ''text'')] = Inr (JStr t) \<and>
          JSON_parse sv t = Inl e)"
  shows "tool_result sv toolResponses i = Inl e"
  using assms by (auto simp del: path.simps simp: tool_result_def response_data_def)

lemma dashboard_data_throws:
  assumes "tool_result sv toolResponses 0 = Inl e \<or> tool_result sv toolResponses 1 = Inl e \<or>
           (tool_result sv toolResponses 0 = Inr netWorthRaw \<and>
            tool_result sv toolResponses 1 = Inr creditReportRaw \<and>
            dashboard_shape netWorthRaw creditReportRaw = Inl e)"
  shows "\<exists>e'. dashboard_data sv toolResponses = Inl e'"
  using assms throws_or_returns [of "tool_result sv toolResponses 0"]
  by (auto simp: dashboard_data_def)

lemma batch_throws:
  assumes "Inl e \<in> set outcomes"
  shows "\<exists>e'. bindE (promise_all outcomes) f = Inl e'"
  using promise_all_Inl [OF assms] by auto

lemma dashboard_catch:
  assumes "\<not> falsy (query_sessionId q)" and "sessionId = string_of (query_sessionId q)"
    and "reqs = map (tool_request sessionId) toolsToFetch"
    and "bindE (promise_all (fst (post_all sv reqs (log s)))) (dashboard_data sv) = Inl e"
  shows "dashboard_handler sv q s =
     (\<lparr> status = 500, body = ErrorBody (js ''Failed to fetch dashboard data.'') \<rparr>,
      s\<lparr> log := log s @ map RelayCall reqs \<rparr>)"
  using assms(4) unfolding assms(2,3)
  by (simp add: dashboard_handler_eq [OF assms(1) refl refl refl] toolsToFetch_def dashboard_failed_def)

lemma chat_catch:
  assumes "\<not> falsy (body_message req)" and "\<not> falsy (body_sessionId req)"
    and "chat_try sv (string_of (body_message req)) (string_of (body_sessionId req)) s = Some (Inl e, s')"
  shows "chat_handler sv req s =
     Some (\<lparr> status = 500, body = ErrorBody (js ''An internal server error occurred.'') \<rparr>, s')"
  using assms by (simp add: chat_handler_def Let_def internal_error_def)

lemma chat_try_model_fails:
  assumes "prior = (case chatSessions s sessionId of None \<Rightarrow> startChat | Some chat \<Rightarrow> chat)"
    and "generate sv (log s) (prior @ [UserText message]) = Inl e"
  shows "chat_try sv message sessionId s =
     Some (Inl e, s\<lparr> chatSessions := (chatSessions s)(sessionId \<mapsto> prior),
                      log := log s @ [ModelCall (prior @ [UserText message])] \<rparr>)"
  using assms(2) unfolding assms(1) by (simp add: chat_try_eq)

lemma chat_try_loop_fails:
  assumes "prior = (case chatSessions s sessionId of None \<Rightarrow> startChat | Some chat \<Rightarrow> chat)"
    and "generate sv (log s) (prior @ [UserText message]) = Inr result"
    and "reasoning_loop sv sessionId (prior @ [UserText message, ModelContent result]) result
           (s\<lparr> chatSessions := (chatSessions s)(sessionId \<mapsto> prior @ [UserText message, ModelContent result]),
               log := log s @ [ModelCall (prior @ [UserText message])] \<rparr>) = Some (looped, s')"
    and "looped = Inl e \<or> (\<exists>result'. looped = Inr result' \<and> response_text result' = Inl e)"
  shows "chat_try sv message sessionId s = Some (Inl e, s')"
  using assms(2,3,4) unfolding assms(1) by (auto simp: chat_try_eq)

lemma reasoning_loop_batch_fails:
  assumes "functionCalls result = Inr (Some fcs)" and "fcs \<noteq> []"
    and "reqs = map (\<lambda>fc. tool_request sessionId (fc_name fc)) fcs"
    and "Inl e \<in> set (fst (post_all sv reqs (log s)))"
  shows "\<exists>e'. reasoning_loop sv sessionId chat result s =
     Some (Inl e', s\<lparr> log := log s @ map RelayCall reqs \<rparr>)"
proof -
  from promise_all_Inl [OF assms(4)]
  obtain e' where "promise_all (fst (post_all sv reqs (log s))) = Inl e'" ..
  then have "reasoning_loop sv sessionId chat result s =
     Some (Inl e', s\<lparr> log := log s @ map RelayCall reqs \<rparr>)"
    unfolding assms(3) by (simp add: reasoning_loop_batch [OF assms(1,2)])
  then show ?thesis ..
qed

text \<open>
  C4, as the code has it. Whatever is thrown in the \<^verbatim>\<open>try\<close> block of a handler, the response
  is status 500 with the one fixed error body of that handler, and no part of a result
  is returned. In the chat handler that is a failed call of the model, a response of the
  model whose accessors throw, and a batch of relay calls of which one fails: the batch
  as a whole fails and the model is not called with the other results. In the dashboard
  handler that is a failed relay call, a text that \<^verbatim>\<open>JSON.parse\<close> rejects, and a deviation
  of the shape that makes the handler read a property of \<^verbatim>\<open>undefined\<close> or \<^verbatim>\<open>null\<close> or call a
  method the value does not have: a field missing before the end of a chain of reads, an
  asset list that is no array, an entry without a string as its type tag. (A missing
  last field of a chain is no such deviation: it reads as \<^verbatim>\<open>undefined\<close>, which \<^verbatim>\<open>parseInt\<close>
  turns into \<open>NaN\<close>.)
\<close>

theorem failures_end_in_500:
  "(\<not> falsy (body_message req) \<and> \<not> falsy (body_sessionId req) \<and>
    chat_try sv (string_of (body_message req)) (string_of (body_sessionId req)) s = Some (Inl e, s') \<longrightarrow>
      chat_handler sv req s =
        Some (\<lparr> status = 500, body = ErrorBody (js ''An internal server error occurred.'') \<rparr>, s')) \<and>
   (\<not> falsy (query_sessionId q) \<and> sessionId = string_of (query_sessionId q) \<and>
    reqs = map (tool_request sessionId) toolsToFetch \<and>
    bindE (promise_all (fst (post_all sv reqs (log s)))) (dashboard_data sv) = Inl e \<longrightarrow>
      dashboard_handler sv q s =
        (\<lparr> status = 500, body = ErrorBody (js ''Failed to fetch dashboard data.'') \<rparr>,
         s\<lparr> log := log s @ map RelayCall reqs \<rparr>)) \<and>
   (prior = (case chatSessions s sessionId of None \<Rightarrow> startChat | Some chat \<Rightarrow> chat) \<and>
    generate sv (log s) (prior @ [UserText message]) = Inl e \<longrightarrow>
      chat_try sv message sessionId s =
        Some (Inl e, s\<lparr> chatSessions := (chatSessions s)(sessionId \<mapsto> prior),
                         log := log s @ [ModelCall (prior @ [UserText message])] \<rparr>)) \<and>
   (prior = (case chatSessions s sessionId of None \<Rightarrow> startChat | Some chat \<Rightarrow> chat) \<and>
    generate sv (log s) (prior @ [UserText message]) = Inr result \<and>
    reasoning_loop sv sessionId (prior @ [UserText message, ModelContent result]) result
      (s\<lparr> chatSessions := (chatSessions s)(sessionId \<mapsto> prior @ [UserText message, ModelContent result]),
          log := log s @ [ModelCall (prior @ [UserText message])] \<rparr>) = Some (looped, s') \<and>
    (looped = Inl e \<or> (\<exists>result'. looped = Inr result' \<and> response_text result' = Inl e)) \<longrightarrow>
      chat_try sv message sessionId s = Some (Inl e, s')) \<and>
   (functionCalls result = Inl e \<longrightarrow> reasoning_loop sv sessionId chat result s = Some (Inl e, s)) \<and>
   (functionCalls result = Inr (Some fcs) \<and> fcs \<noteq> [] \<and>
    reqs = map (\<lambda>fc. tool_request sessionId (fc_name fc)) fcs \<and>
    Inl e \<in> set (fst (post_all sv reqs (log s))) \<longrightarrow>
      (\<exists>e'. reasoning_loop sv sessionId chat result s =
         Some (Inl e', s\<lparr> log := log s @ map RelayCall reqs \<rparr>))) \<and>
   (Inl e \<in> set outcomes \<longrightarrow> (\<exists>e'. bindE (promise_all outcomes) (dashboard_data sv) = Inl e')) \<and>
   (tool_result sv toolResponses 0 = Inl e \<or> tool_result sv toolResponses 1 = Inl e \<or>
    (tool_result sv toolResponses 0 = Inr netWorthRaw \<and>
     tool_result sv toolResponses 1 = Inr creditReportRaw \<and>
     dashboard_shape netWorthRaw creditReportRaw = Inl e) \<longrightarrow>
      (\<exists>e'. dashboard_data sv toolResponses = Inl e')) \<and>
   (i < length toolResponses \<and>
    (path (toolResponses ! i)
       [Prop (js ''result''), Prop (js ''content''), Index 0, Prop (js ''text'')] = Inl e \<or>
     (path (toolResponses ! i)
        [Prop (js ''result''), Prop (js ''content''), Index 0, Prop (js ''text'')] = Inr (JStr t) \<and>
      JSON_parse sv t = Inl e)) \<longrightarrow>
      tool_result sv toolResponses i = Inl e) \<and>
   (path netWorthRaw
      [Prop (js ''netWorthResponse''), Prop (js ''totalNetWorthValue''), Prop (js ''units'')] = Inl e \<or>
    path netWorthRaw [Prop (js ''netWorthResponse''), Prop (js ''assetValues'')] = Inl e \<or>
    (\<exists>av. path netWorthRaw [Prop (js ''netWorthResponse''), Prop (js ''assetValues'')] = Inr av \<and>
          as_array av = Inl e) \<or>
    (\<exists>items item.
       path netWorthRaw [Prop (js ''netWorthResponse''), Prop (js ''assetValues'')] = Inr (JArr items) \<and>
       item \<in> set items \<and>
       (is_asset item = Inl e \<or> (is_asset item = Inr True \<and> asset_of item = Inl e))) \<or>
    path creditReportRaw
      [Prop (js ''creditReports''), Index 0, Prop (js ''creditReportData''),
       Prop (js ''score''), Prop (js ''bureauScore'')] = Inl e \<longrightarrow>
      (\<exists>e'. dashboard_shape netWorthRaw creditReportRaw = Inl e')) \<and>
   (path v ks = Inr Undefined \<or> path v ks = Inr JNull \<longrightarrow> path v (ks @ k # ks') = Inl TypeError)"
proof (intro conjI)
  show "\<not> falsy (body_message req) \<and> \<not> falsy (body_sessionId req) \<and>
    chat_try sv (string_of (body_message req)) (string_of (body_sessionId req)) s = Some (Inl e, s') \<longrightarrow>
      chat_handler sv req s =
        Some (\<lparr> status = 500, body = ErrorBody (js ''An internal server error occurred.'') \<rparr>, s')"
    using chat_catch by blast
  show "\<not> falsy (query_sessionId q) \<and> sessionId = string_of (query_sessionId q) \<and>
    reqs = map (tool_request sessionId) toolsToFetch \<and>
    bindE (promise_all (fst (post_all sv reqs (log s)))) (dashboard_data sv) = Inl e \<longrightarrow>
      dashboard_handler sv q s =
        (\<lparr> status = 500, body = ErrorBody (js ''Failed to fetch dashboard data.'') \<rparr>,
         s\<lparr> log := log s @ map RelayCall reqs \<rparr>)"
    using dashboard_catch by blast
  show "prior = (case chatSessions s sessionId of None \<Rightarrow> startChat | Some chat \<Rightarrow> chat) \<and>
    generate sv (log s) (prior @ [UserText message]) = Inl e \<longrightarrow>
      chat_try sv message sessionId s =
        Some (Inl e, s\<lparr> chatSessions := (chatSessions s)(sessionId \<mapsto> prior),
                         log := log s @ [ModelCall (prior @ [UserText message])] \<rparr>)"
    using chat_try_model_fails by blast
  show "prior = (case chatSessions s sessionId of None \<Rightarrow> startChat | Some chat \<Rightarrow> chat) \<and>
    generate sv (log s) (prior @ [UserText message]) = Inr result \<and>
    reasoning_loop sv sessionId (prior @ [UserText message, ModelContent result]) result
      (s\<lparr> chatSessions := (chatSessions s)(sessionId \<mapsto> prior @ [UserText message, ModelContent result]),
          log := log s @ [ModelCall (prior @ [UserText message])] \<rparr>) = Some (looped, s') \<and>
    (looped = Inl e \<or> (\<exists>result'. looped = Inr result' \<and> response_text result' = Inl e)) \<longrightarrow>
      chat_try sv message sessionId s = Some (Inl e, s')"
    using chat_try_loop_fails [of prior s sessionId sv message result looped s' e] by blast
  show "functionCalls result = Inl e \<longrightarrow> reasoning_loop sv sessionId chat result s = Some (Inl e, s)"
    using reasoning_loop_throw by blast
  show "functionCalls result = Inr (Some fcs) \<and> fcs \<noteq> [] \<and>
    reqs = map (\<lambda>fc. tool_request sessionId (fc_name fc)) fcs \<and>
    Inl e \<in> set (fst (post_all sv reqs (log s))) \<longrightarrow>
      (\<exists>e'. reasoning_loop sv sessionId chat result s =
         Some (Inl e', s\<lparr> log := log s @ map RelayCall reqs \<rparr>))"
    using reasoning_loop_batch_fails [of result fcs reqs sessionId e sv s chat] by blast
  show "Inl e \<in> set outcomes \<longrightarrow> (\<exists>e'. bindE (promise_all outcomes) (dashboard_data sv) = Inl e')"
    using batch_throws by blast
  show "tool_result sv toolResponses 0 = Inl e \<or> tool_result sv toolResponses 1 = Inl e \<or>
    (tool_result sv toolResponses 0 = Inr netWorthRaw \<and>
     tool_result sv toolResponses 1 = Inr creditReportRaw \<and>
     dashboard_shape netWorthRaw creditReportRaw = Inl e) \<longrightarrow>
      (\<exists>e'. dashboard_data sv toolResponses = Inl e')"
    using dashboard_data_throws [of sv toolResponses e netWorthRaw creditReportRaw] by blast
  show "i < length toolResponses \<and>
    (path (toolResponses ! i)
       [Prop (js ''result''), Prop (js ''content''), Index 0, Prop (js ''text'')] = Inl e \<or>
     (path (toolResponses ! i)
        [Prop (js ''result''), Prop (js ''content''), Index 0, Prop (js ''text'')] = Inr (JStr t) \<and>
      JSON_parse sv t = Inl e)) \<longrightarrow>
      tool_result sv toolResponses i = Inl e"
    using tool_result_throws [of i toolResponses e t sv] by blast
  show "path netWorthRaw
      [Prop (js ''netWorthResponse''), Prop (js ''totalNetWorthValue''), Prop (js ''units'')] = Inl e \<or>
    path netWorthRaw [Prop (js ''netWorthResponse''), Prop (js ''assetValues'')] = Inl e \<or>
    (\<exists>av. path netWorthRaw [Prop (js ''netWorthResponse''), Prop (js ''assetValues'')] = Inr av \<and>
          as_array av = Inl e) \<or>
    (\<exists>items item.
       path netWorthRaw [Prop (js ''netWorthResponse''), Prop (js ''assetValues'')] = Inr (JArr items) \<and>
       item \<in> set items \<and>
       (is_asset item = Inl e \<or> (is_asset item = Inr True \<and> asset_of item = Inl e))) \<or>
    path creditReportRaw
      [Prop (js ''creditReports''), Index 0, Prop (js ''creditReportData''),
       Prop (js ''score''), Prop (js ''bureauScore'')] = Inl e \<longrightarrow>
      (\<exists>e'. dashboard_shape netWorthRaw creditReportRaw = Inl e')"
    using dashboard_shape_throws [of netWorthRaw e creditReportRaw] by (intro impI) assumption
  show "path v ks = Inr Undefined \<or> path v ks = Inr JNull \<longrightarrow> path v (ks @ k # ks') = Inl TypeError"
    using path_through_missing by blast
qed

theorem failures_end_in_500_witness:
  "chat_handler mock \<lparr> body_message = Some (js ''down''), body_sessionId = Some (js ''s6'') \<rparr> empty_server =
     Some (\<lparr> status = 500, body = ErrorBody (js ''An internal server error occurred.'') \<rparr>,
           \<lparr> chatSessions = [js ''s6'' \<mapsto> [SystemInstruction]],
             log = [ModelCall [SystemInstruction, UserText (js ''down'')]] \<rparr>) \<and>
   dashboard_handler mock \<lparr> query_sessionId = Some (js ''offline'') \<rparr> empty_server =
     (\<lparr> status = 500, body = ErrorBody (js ''Failed to fetch dashboard data.'') \<rparr>,
      \<lparr> chatSessions = Map.empty,
        log = [RelayCall (tool_request (js ''offline'') (js ''fetch_net_worth'')),
               RelayCall (tool_request (js ''offline'') (js ''fetch_credit_report''))] \<rparr>) \<and>
   dashboard_handler mock \<lparr> query_sessionId = Some (js ''empty'') \<rparr> empty_server =
     (\<lparr> status = 500, body = ErrorBody (js ''Failed to fetch dashboard data.'') \<rparr>,
      \<lparr> chatSessions = Map.empty,
        log = [RelayCall (tool_request (js ''empty'') (js ''fetch_net_worth'')),
               RelayCall (tool_request (js ''empty'') (js ''fetch_credit_report''))] \<rparr>)"
proof -
  note rest1 = failures_end_in_500 [THEN conjunct2]
  note rest2 = rest1 [THEN conjunct2]
  note rest6 = rest2 [THEN conjunct2, THEN conjunct2, THEN conjunct2, THEN conjunct2]
  note rest7 = rest6 [THEN conjunct2]
  note rest9 = rest7 [THEN conjunct2, THEN conjunct2]
  note catch_chat = failures_end_in_500 [THEN conjunct1, rule_format]
  note catch_dashboard = rest1 [THEN conjunct1, rule_format]
  note model_fails = rest2 [THEN conjunct1, rule_format]
  note batch_fails = rest6 [THEN conjunct1, rule_format]
  note data_fails = rest7 [THEN conjunct1, rule_format]
  note shape_fails = rest9 [THEN conjunct1, rule_format]
  note read_fails = rest9 [THEN conjunct2, rule_format]
  have down: "chat_handler mock \<lparr> body_message = Some (js ''down''), body_sessionId = Some (js ''s6'') \<rparr>
      empty_server =
     Some (\<lparr> status = 500, body = ErrorBody (js ''An internal server error occurred.'') \<rparr>,
           \<lparr> chatSessions = [js ''s6'' \<mapsto> [SystemInstruction]],
             log = [ModelCall [SystemInstruction, UserText (js ''down'')]] \<rparr>)"
  proof -
    let ?req = "\<lparr> body_message = Some (js ''down''), body_sessionId = Some (js ''s6'') \<rparr>"
    let ?s' = "empty_server
        \<lparr> chatSessions := (chatSessions empty_server)(js ''s6'' \<mapsto> startChat),
          log := log empty_server @ [ModelCall (startChat @ [UserText (js ''down'')])] \<rparr>"
    have "startChat = (case chatSessions empty_server (js ''s6'') of None \<Rightarrow> startChat | Some chat \<Rightarrow> chat) \<and>
        generate mock (log empty_server) (startChat @ [UserText (js ''down'')]) = Inl GoogleGenerativeAIError"
      by (simp add: empty_server_def mock_def mock_generate_def js_def)
    then have "chat_try mock (js ''down'') (js ''s6'') empty_server = Some (Inl GoogleGenerativeAIError, ?s')"
      by (rule model_fails)
    then have "\<not> falsy (body_message ?req) \<and> \<not> falsy (body_sessionId ?req) \<and>
        chat_try mock (string_of (body_message ?req)) (string_of (body_sessionId ?req)) empty_server =
          Some (Inl GoogleGenerativeAIError, ?s')"
      by (simp add: js_def)
    then have "chat_handler mock ?req empty_server =
        Some (\<lparr> status = 500, body = ErrorBody (js ''An internal server error occurred.'') \<rparr>, ?s')"
      by (rule catch_chat)
    then show ?thesis
      by (simp add: empty_server_def startChat_def)
  qed
  have offline: "dashboard_handler mock \<lparr> query_sessionId = Some (js ''offline'') \<rparr> empty_server =
     (\<lparr> status = 500, body = ErrorBody (js ''Failed to fetch dashboard data.'') \<rparr>,
      \<lparr> chatSessions = Map.empty,
        log = [RelayCall (tool_request (js ''offline'') (js ''fetch_net_worth'')),
               RelayCall (tool_request (js ''offline'') (js ''fetch_credit_report''))] \<rparr>)"
  proof -
    let ?q = "\<lparr> query_sessionId = Some (js ''offline'') \<rparr>"
    let ?reqs = "map (tool_request (js ''offline'')) toolsToFetch"
    let ?outcomes = "fst (post_all mock ?reqs (log empty_server))"
    have "?outcomes = [Inr (tool_response netWorth_text), Inl AxiosError]"
      by (simp add: toolsToFetch_def mock_def mock_post_def tool_request_def js_def)
    then have "Inl AxiosError \<in> set ?outcomes" by simp
    then have "\<exists>e'. bindE (promise_all ?outcomes) (dashboard_data mock) = Inl e'"
      by (rule batch_fails)
    then obtain e' where "bindE (promise_all ?outcomes) (dashboard_data mock) = Inl e'" ..
    then have "\<not> falsy (query_sessionId ?q) \<and> js ''offline'' = string_of (query_sessionId ?q) \<and>
        ?reqs = map (tool_request (js ''offline'')) toolsToFetch \<and>
        bindE (promise_all (fst (post_all mock ?reqs (log empty_server)))) (dashboard_data mock) = Inl e'"
      by (simp add: js_def)
    then have "dashboard_handler mock ?q empty_server =
       (\<lparr> status = 500, body = ErrorBody (js ''Failed to fetch dashboard data.'') \<rparr>,
        empty_server\<lparr> log := log empty_server @ map RelayCall ?reqs \<rparr>)"
      by (rule catch_dashboard)
    then show ?thesis
      by (simp add: empty_server_def toolsToFetch_def)
  qed
  have empty: "dashboard_handler mock \<lparr> query_sessionId = Some (js ''empty'') \<rparr> empty_server =
     (\<lparr> status = 500, body = ErrorBody (js ''Failed to fetch dashboard data.'') \<rparr>,
      \<lparr> chatSessions = Map.empty,
        log = [RelayCall (tool_request (js ''empty'') (js ''fetch_net_worth'')),
               RelayCall (tool_request (js ''empty'') (js ''fetch_credit_report''))] \<rparr>)"
  proof -
    let ?q = "\<lparr> query_sessionId = Some (js ''empty'') \<rparr>"
    let ?reqs = "map (tool_request (js ''empty'')) toolsToFetch"
    let ?rs = "[tool_response (js ''{}''), tool_response creditReport_text]"
    have "path (JObj []) [Prop (js ''netWorthResponse'')] = Inr Undefined \<or>
        path (JObj []) [Prop (js ''netWorthResponse'')] = Inr JNull"
      by simp
    then have "path (JObj []) ([Prop (js ''netWorthResponse'')] @
        Prop (js ''totalNetWorthValue'') # [Prop (js ''units'')]) = Inl TypeError"
      by (rule read_fails)
    then have "path (JObj [])
        [Prop (js ''netWorthResponse''), Prop (js ''totalNetWorthValue''), Prop (js ''units'')] = Inl TypeError"
      by (simp only: append.simps)
    then have "\<exists>e'. dashboard_shape (JObj []) creditReport_parsed = Inl e'"
      by (intro shape_fails disjI1)
    then obtain e1 where shape: "dashboard_shape (JObj []) creditReport_parsed = Inl e1" ..
    have "tool_result mock ?rs 0 = Inr (JObj [])" "tool_result mock ?rs 1 = Inr creditReport_parsed"
      by (simp_all add: tool_result_def response_data_def tool_response_def mock_def mock_parse_def
          js_def netWorth_text_def netWorth_no_units_text_def creditReport_text_def quoted_def)
    with shape have "\<exists>e'. dashboard_data mock ?rs = Inl e'"
      by (intro data_fails disjI2) blast
    then obtain e2 where data: "dashboard_data mock ?rs = Inl e2" ..
    have "fst (post_all mock ?reqs (log empty_server)) = map Inr ?rs"
      by (simp add: toolsToFetch_def mock_def mock_post_def tool_request_def js_def)
    with data have "bindE (promise_all (fst (post_all mock ?reqs (log empty_server)))) (dashboard_data mock) =
        Inl e2"
      by (simp only: promise_all_map_Inr bindE_Inr)
    then have "\<not> falsy (query_sessionId ?q) \<and> js ''empty'' = string_of (query_sessionId ?q) \<and>
        ?reqs = map (tool_request (js ''empty'')) toolsToFetch \<and>
        bindE (promise_all (fst (post_all mock ?reqs (log empty_server)))) (dashboard_data mock) = Inl e2"
      by (simp add: js_def)
    then have "dashboard_handler mock ?q empty_server =
       (\<lparr> status = 500, body = ErrorBody (js ''Failed to fetch dashboard data.'') \<rparr>,
        empty_server\<lparr> log := log empty_server @ map RelayCall ?reqs \<rparr>)"
      by (rule catch_dashboard)
    then show ?thesis
      by (simp add: empty_server_def toolsToFetch_def)
  qed
  from down offline empty show ?thesis by (intro conjI)
qed

text \<open>
  The claim as the spec states it, a response that misses an expected field ending in
  status 500, fails where the missing field is the last of its chain: for the session
  \<^verbatim>\<open>no-units\<close> the net worth has no \<^verbatim>\<open>units\<close> in its total, the read yields \<^verbatim>\<open>undefined\<close>, and
  the response is status 200 with \<open>NaN\<close> as the net worth.
\<close>

theorem missing_units_is_answered_with_200:
  "JSON_parse mock netWorth_no_units_text = Inr netWorth_no_units_parsed \<and>
   path netWorth_no_units_parsed
     [Prop (js ''netWorthResponse''), Prop (js ''totalNetWorthValue''), Prop (js ''units'')] = Inr Undefined \<and>
   dashboard_handler mock \<lparr> query_sessionId = Some (js ''no-units'') \<rparr> empty_server =
     (\<lparr> status = 200,
        body = DashboardBody \<lparr> netWorth = NaN, assets = [], creditScore = Num 746 \<rparr> \<rparr>,
      \<lparr> chatSessions = Map.empty,
        log = [RelayCall (tool_request (js ''no-units'') (js ''fetch_net_worth'')),
               RelayCall (tool_request (js ''no-units'') (js ''fetch_credit_report''))] \<rparr>)"
  by (simp add: mock_defs dashboard_defs js_def is_whitespace_def Let_def)

end
